theory Spec2Isabelle
  imports Main
begin

section \<open>Go values, errors and outcomes\<close>

text \<open>
  A Go \<open>error\<close> value. The package declares one sentinel, \<open>ErrNotFound\<close>, which
  \<open>errors.Is\<close> recognises by identity; every other error (\<open>errors.New\<close>,
  \<open>fmt.Errorf\<close> with \<open>%v\<close>, an error of the backend) is observed by the
  source through its message only.
\<close>

datatype error = ErrNotFound | ErrorString string

fun Error :: "error \<Rightarrow> string" where
  "Error ErrNotFound = ''item not found''"
| "Error (ErrorString m) = m"

text \<open>The run-time panics the source can raise.\<close>

datatype panic = NilPointerDereference | InterfaceConversion | IndexOutOfRange

text \<open>
  The outcome of a Go function returning \<open>(T, error)\<close>: a value with a nil error, a
  non-nil error, or a panic unwinding the call.
\<close>

datatype 'a result = Ok 'a | Failed error | Panicked panic

text \<open>A Go slice: the nil slice is distinct from an allocated slice of length 0.\<close>

datatype 'a slice = NilSlice | Slice "'a list"

fun elems :: "'a slice \<Rightarrow> 'a list" where
  "elems NilSlice = []"
| "elems (Slice xs) = xs"

text \<open>\<open>append(s, x)\<close> always yields an allocated slice.\<close>

fun append_slice :: "'a slice \<Rightarrow> 'a \<Rightarrow> 'a slice" where
  "append_slice s x = Slice (elems s @ [x])"

text \<open>
  The dynamic values (\<open>interface{}\<close>) that the source stores in and reads from
  \<open>map[string]interface{}\<close>: nil, string, int, bool, \<open>[]string\<close> and
  \<open>[]interface{}\<close>.
\<close>

datatype go_value =
    VNil
  | VString string
  | VInt int
  | VBool bool
  | VStrings "string slice"
  | VList "go_value list"

text \<open>\<open>m[k]\<close> on a \<open>map[string]interface{}\<close>: a missing key reads as nil.\<close>

definition index_map :: "(string \<rightharpoonup> go_value) \<Rightarrow> string \<Rightarrow> go_value" where
  "index_map m k = (case m k of None \<Rightarrow> VNil | Some v \<Rightarrow> v)"

section \<open>Library functions of package strings\<close>

text \<open>\<open>strings.HasPrefix\<close>.\<close>

definition HasPrefix :: "string \<Rightarrow> string \<Rightarrow> bool" where
  "HasPrefix s prefix = (length prefix \<le> length s \<and> take (length prefix) s = prefix)"

text \<open>\<open>strings.Index\<close>: the position of the first occurrence, \<open>None\<close> for Go's -1.\<close>

fun Index :: "string \<Rightarrow> string \<Rightarrow> nat option" where
  "Index [] substr = (if substr = [] then Some 0 else None)"
| "Index (c # cs) substr =
     (if HasPrefix (c # cs) substr then Some 0 else map_option Suc (Index cs substr))"

text \<open>
  \<open>strings.SplitN\<close> for a count \<open>n \<ge> 0\<close> and a non-empty separator (the source
  calls it with \<open>":"\<close> and 3): at most \<open>n\<close> pieces, the last one the unsplit rest.
\<close>

fun SplitN :: "string \<Rightarrow> string \<Rightarrow> nat \<Rightarrow> string list" where
  "SplitN s sep 0 = []"
| "SplitN s sep (Suc 0) = [s]"
| "SplitN s sep (Suc (Suc n)) =
     (case Index s sep of
        None \<Rightarrow> [s]
      | Some m \<Rightarrow> take m s # SplitN (drop (m + length sep) s) sep (Suc n))"

text \<open>
  \<open>strings.Replace\<close> for a count \<open>n \<ge> 0\<close> and a non-empty \<open>old\<close> (the source
  calls it with a non-empty prefix and 1).
\<close>

fun Replace :: "string \<Rightarrow> string \<Rightarrow> string \<Rightarrow> nat \<Rightarrow> string" where
  "Replace s old new 0 = s"
| "Replace s old new (Suc n) =
     (case Index s old of
        None \<Rightarrow> s
      | Some m \<Rightarrow> take m s @ new @ Replace (drop (m + length old) s) old new n)"

section \<open>Authorization\<close>

record Authorization =
  Provider :: string
  Key :: string
  Secret :: string

definition NewAuthorization :: "string \<Rightarrow> Authorization result" where
  "NewAuthorization authorizationHeader =
     (let auth = SplitN authorizationHeader '':'' 3 in
      if list_ex (\<lambda>i. i = []) auth
      then Failed (ErrorString ''invalid authorization header provided'')
      else if length auth < 3
      then Failed (ErrorString ''invalid authorization header provided'')
      else Ok \<lparr>Provider = auth ! 0, Key = auth ! 1, Secret = auth ! 2\<rparr>)"

definition IsAdmin :: "Authorization \<Rightarrow> bool" where
  "IsAdmin a = (Key a = ''admin'')"

definition AuthorizedAdmin :: "Authorization \<Rightarrow> string \<Rightarrow> bool" where
  "AuthorizedAdmin a adminSecret = (IsAdmin a \<and> Secret a = adminSecret)"

section \<open>Paths and policy text\<close>

definition vaultAppRolePrefix :: string where
  "vaultAppRolePrefix = ''auth/approle/role''"

definition vaultProjectPrefix :: string where
  "vaultProjectPrefix = ''argo-cloudops-projects''"

definition vaultSecretTTL :: string where
  "vaultSecretTTL = ''8776h''"

definition vaultTokenMaxTTL :: string where
  "vaultTokenMaxTTL = ''10m''"

definition vaultTokenNumUses :: int where
  "vaultTokenNumUses = 3"

definition genProjectAppRole :: "string \<Rightarrow> string" where
  "genProjectAppRole name = vaultAppRolePrefix @ ''/'' @ vaultProjectPrefix @ ''-'' @ name"

definition defaultVaultReadonlyPolicyAWS :: "string \<Rightarrow> string" where
  "defaultVaultReadonlyPolicyAWS projectName =
     ''path \"aws/sts/argo-cloudops-projects-'' @ projectName
       @ ''-target-*\" { capabilities = [\"read\"] }''"

section \<open>The secret backend\<close>

text \<open>
  \<open>vault.Secret\<close> and \<open>vault.SecretAuth\<close> belong to the Vault client library; the
  fields below are the ones the source reads. A nil \<open>Data\<close> map reads like the empty
  map.
\<close>

record SecretAuth =
  ClientToken :: string

record vault_Secret =
  Data :: "string \<rightharpoonup> go_value"
  Auth :: "SecretAuth option"

text \<open>
  The two interfaces the provider talks to, over a backend state \<open>'s\<close>. A method
  returning \<open>(*vault.Secret, error)\<close> yields both components, either of which may be
  nil.
\<close>

type_synonym response = "vault_Secret option \<times> error option"

record 's vaultLogical =
  Delete :: "string \<Rightarrow> 's \<Rightarrow> response \<times> 's"
  List :: "string \<Rightarrow> 's \<Rightarrow> response \<times> 's"
  Read :: "string \<Rightarrow> 's \<Rightarrow> response \<times> 's"
  Write :: "string \<Rightarrow> (string \<rightharpoonup> go_value) \<Rightarrow> 's \<Rightarrow> response \<times> 's"

record 's vaultSys =
  DeletePolicy :: "string \<Rightarrow> 's \<Rightarrow> error option \<times> 's"
  PutPolicy :: "string \<Rightarrow> string \<Rightarrow> 's \<Rightarrow> error option \<times> 's"

record 's vault_Client =
  Logical :: "'s vaultLogical"
  Sys :: "'s vaultSys"

text \<open>
  What a run can observe outside the provider: the backend calls issued so far, in
  order, the lines printed to standard output, and the backend's own state.
\<close>

datatype call =
    Call_Delete string
  | Call_List string
  | Call_Read string
  | Call_Write string "string \<rightharpoonup> go_value"
  | Call_DeletePolicy string
  | Call_PutPolicy string string

record 's world =
  trace :: "call list"
  stdout :: "string list"
  backend :: 's

section \<open>The provider\<close>

record 's VaultProvider =
  roleID :: string
  secretID :: string
  vaultLogicalSvc :: "'s vaultLogical"
  vaultSysSvc :: "'s vaultSys"

text \<open>The constructor's error is always nil, so the model returns the provider itself.\<close>

definition NewVaultProvider :: "'s vault_Client \<Rightarrow> Authorization \<Rightarrow> 's VaultProvider" where
  "NewVaultProvider svc a =
     \<lparr>roleID = Key a, secretID = Secret a,
      vaultLogicalSvc = Logical svc, vaultSysSvc = Sys svc\<rparr>"

definition isAdmin :: "'s VaultProvider \<Rightarrow> bool" where
  "isAdmin v = (roleID v = ''admin'')"

subsection \<open>Calls through the two interfaces\<close>

definition svc_Delete :: "'s VaultProvider \<Rightarrow> string \<Rightarrow> 's world \<Rightarrow> response \<times> 's world" where
  "svc_Delete v path w =
     (case Delete (vaultLogicalSvc v) path (backend w) of
        (r, s') \<Rightarrow> (r, w\<lparr>trace := trace w @ [Call_Delete path], backend := s'\<rparr>))"

definition svc_List :: "'s VaultProvider \<Rightarrow> string \<Rightarrow> 's world \<Rightarrow> response \<times> 's world" where
  "svc_List v path w =
     (case List (vaultLogicalSvc v) path (backend w) of
        (r, s') \<Rightarrow> (r, w\<lparr>trace := trace w @ [Call_List path], backend := s'\<rparr>))"

definition svc_Read :: "'s VaultProvider \<Rightarrow> string \<Rightarrow> 's world \<Rightarrow> response \<times> 's world" where
  "svc_Read v path w =
     (case Read (vaultLogicalSvc v) path (backend w) of
        (r, s') \<Rightarrow> (r, w\<lparr>trace := trace w @ [Call_Read path], backend := s'\<rparr>))"

definition svc_Write ::
  "'s VaultProvider \<Rightarrow> string \<Rightarrow> (string \<rightharpoonup> go_value) \<Rightarrow> 's world \<Rightarrow> response \<times> 's world" where
  "svc_Write v path data w =
     (case Write (vaultLogicalSvc v) path data (backend w) of
        (r, s') \<Rightarrow> (r, w\<lparr>trace := trace w @ [Call_Write path data], backend := s'\<rparr>))"

definition svc_DeletePolicy ::
  "'s VaultProvider \<Rightarrow> string \<Rightarrow> 's world \<Rightarrow> error option \<times> 's world" where
  "svc_DeletePolicy v name w =
     (case DeletePolicy (vaultSysSvc v) name (backend w) of
        (e, s') \<Rightarrow> (e, w\<lparr>trace := trace w @ [Call_DeletePolicy name], backend := s'\<rparr>))"

definition svc_PutPolicy ::
  "'s VaultProvider \<Rightarrow> string \<Rightarrow> string \<Rightarrow> 's world \<Rightarrow> error option \<times> 's world" where
  "svc_PutPolicy v name rules w =
     (case PutPolicy (vaultSysSvc v) name rules (backend w) of
        (e, s') \<Rightarrow> (e, w\<lparr>trace := trace w @ [Call_PutPolicy name rules], backend := s'\<rparr>))"

subsection \<open>Projects\<close>

definition createPolicyState ::
  "'s VaultProvider \<Rightarrow> string \<Rightarrow> string \<Rightarrow> 's world \<Rightarrow> error option \<times> 's world" where
  "createPolicyState v name policy w =
     svc_PutPolicy v (vaultProjectPrefix @ ''-'' @ name) policy w"

definition deletePolicyState ::
  "'s VaultProvider \<Rightarrow> string \<Rightarrow> 's world \<Rightarrow> error option \<times> 's world" where
  "deletePolicyState v name w = svc_DeletePolicy v (vaultProjectPrefix @ ''-'' @ name) w"

definition writeProjectState ::
  "'s VaultProvider \<Rightarrow> string \<Rightarrow> 's world \<Rightarrow> error option \<times> 's world" where
  "writeProjectState v name w =
     (let options =
        [''secret_id_ttl'' \<mapsto> VString vaultSecretTTL,
         ''token_max_ttl'' \<mapsto> VString vaultTokenMaxTTL,
         ''token_no_default_policy'' \<mapsto> VString ''true'',
         ''token_num_uses'' \<mapsto> VInt vaultTokenNumUses,
         ''token_policies'' \<mapsto> VString (vaultProjectPrefix @ ''-'' @ name)]
      in case svc_Write v (genProjectAppRole name) options w of
           ((_, Some err), w') \<Rightarrow> (Some err, w')
         | ((_, None), w') \<Rightarrow> (None, w'))"

definition readRoleID :: "'s VaultProvider \<Rightarrow> string \<Rightarrow> 's world \<Rightarrow> string result \<times> 's world" where
  "readRoleID v appRoleName w =
     (case svc_Read v (genProjectAppRole appRoleName @ ''/role-id'') w of
        ((_, Some err), w') \<Rightarrow> (Failed err, w')
      | ((None, None), w') \<Rightarrow> (Panicked NilPointerDereference, w')
      | ((Some secret, None), w') \<Rightarrow>
          (case index_map (Data secret) ''role_id'' of
             VString s \<Rightarrow> (Ok s, w')
           | _ \<Rightarrow> (Panicked InterfaceConversion, w')))"

definition readSecretID :: "'s VaultProvider \<Rightarrow> string \<Rightarrow> 's world \<Rightarrow> string result \<times> 's world" where
  "readSecretID v appRoleName w =
     (let options = [''force'' \<mapsto> VBool True]
      in case svc_Write v (genProjectAppRole appRoleName @ ''/secret-id'') options w of
           ((_, Some err), w') \<Rightarrow> (Failed err, w')
         | ((None, None), w') \<Rightarrow> (Panicked NilPointerDereference, w')
         | ((Some secret, None), w') \<Rightarrow>
             (case index_map (Data secret) ''secret_id'' of
                VString s \<Rightarrow> (Ok s, w')
              | _ \<Rightarrow> (Panicked InterfaceConversion, w')))"

text \<open>The result pair is \<open>(roleID, secretID)\<close>.\<close>

definition CreateProject ::
  "'s VaultProvider \<Rightarrow> string \<Rightarrow> 's world \<Rightarrow> (string \<times> string) result \<times> 's world" where
  "CreateProject v name w =
     (if \<not> isAdmin v
      then (Failed (ErrorString ''admin credentials must be used to create project''), w)
      else
        let policy = defaultVaultReadonlyPolicyAWS name in
        case createPolicyState v name policy w of
          (Some err, w1) \<Rightarrow> (Failed err, w1)
        | (None, w1) \<Rightarrow>
            (case writeProjectState v name w1 of
               (Some err, w2) \<Rightarrow> (Failed err, w2)
             | (None, w2) \<Rightarrow>
                 (case readSecretID v name w2 of
                    (Failed err, w3) \<Rightarrow> (Failed err, w3)
                  | (Panicked p, w3) \<Rightarrow> (Panicked p, w3)
                  | (Ok secretID', w3) \<Rightarrow>
                      (case readRoleID v name w3 of
                         (Failed err, w4) \<Rightarrow> (Failed err, w4)
                       | (Panicked p, w4) \<Rightarrow> (Panicked p, w4)
                       | (Ok roleID', w4) \<Rightarrow> (Ok (roleID', secretID'), w4)))))"

definition DeleteProject ::
  "'s VaultProvider \<Rightarrow> string \<Rightarrow> 's world \<Rightarrow> error option \<times> 's world" where
  "DeleteProject v name w =
     (if \<not> isAdmin v
      then (Some (ErrorString ''admin credentials must be used to delete project''), w)
      else
        case deletePolicyState v name w of
          (Some err, w1) \<Rightarrow> (Some (ErrorString (''vault delete project error: '' @ Error err)), w1)
        | (None, w1) \<Rightarrow>
            (case svc_Delete v (genProjectAppRole name) w1 of
               ((_, Some err), w2) \<Rightarrow>
                 (Some (ErrorString (''vault delete project error: '' @ Error err)), w2)
             | ((_, None), w2) \<Rightarrow> (None, w2)))"

definition GetProject :: "'s VaultProvider \<Rightarrow> string \<Rightarrow> 's world \<Rightarrow> string result \<times> 's world" where
  "GetProject v projectName w =
     (case svc_Read v (genProjectAppRole projectName) w of
        ((_, Some err), w') \<Rightarrow>
          (Failed (ErrorString (''vault get project error: '' @ Error err)), w')
      | ((None, None), w') \<Rightarrow> (Failed ErrNotFound, w')
      | ((Some sec, None), w') \<Rightarrow> (Ok (''{\"name\":\"'' @ projectName @ ''\"}''), w'))"

text \<open>
  \<open>errors.Is(err, ErrNotFound)\<close> holds of the sentinel alone: no error that
  \<open>GetProject\<close> returns wraps another.
\<close>

definition ProjectExists :: "'s VaultProvider \<Rightarrow> string \<Rightarrow> 's world \<Rightarrow> bool result \<times> 's world" where
  "ProjectExists v name w =
     (case GetProject v name w of
        (Failed err, w') \<Rightarrow> (if err = ErrNotFound then (Ok False, w') else (Failed err, w'))
      | (Panicked p, w') \<Rightarrow> (Panicked p, w')
      | (Ok p, w') \<Rightarrow> (Ok (p \<noteq> []), w'))"

subsection \<open>Targets\<close>

record TargetProperties =
  CredentialType :: string
  PolicyArns :: "string slice"
  RoleArn :: string

record CreateTargetRequest =
  Name :: string
  Properties :: TargetProperties
  Type :: string

text \<open>
  The type assertions \<open>x.(string)\<close> and \<open>x.([]interface{})\<close>; \<open>None\<close> is the
  panic of a failed assertion. A \<open>[]string\<close> is not a \<open>[]interface{}\<close>.
\<close>

fun assert_string :: "go_value \<Rightarrow> string option" where
  "assert_string (VString s) = Some s"
| "assert_string _ = None"

fun assert_list :: "go_value \<Rightarrow> go_value list option" where
  "assert_list (VList xs) = Some xs"
| "assert_list _ = None"

definition CreateTarget ::
  "'s VaultProvider \<Rightarrow> string \<Rightarrow> CreateTargetRequest \<Rightarrow> 's world \<Rightarrow> error option \<times> 's world" where
  "CreateTarget v projectName ctr w =
     (if \<not> isAdmin v
      then (Some (ErrorString ''admin credentials must be used to create target''), w)
      else
        let targetName = Name ctr;
            credentialType = CredentialType (Properties ctr);
            policyArns = PolicyArns (Properties ctr);
            roleArn = RoleArn (Properties ctr);
            options =
              [''role_arns'' \<mapsto> VString roleArn,
               ''credential_type'' \<mapsto> VString credentialType,
               ''policy_arns'' \<mapsto> VStrings policyArns];
            path = ''aws/roles/'' @ vaultProjectPrefix @ ''-'' @ projectName
                     @ ''-target-'' @ targetName
        in case svc_Write v path options w of ((_, err), w') \<Rightarrow> (err, w'))"

definition DeleteTarget ::
  "'s VaultProvider \<Rightarrow> string \<Rightarrow> string \<Rightarrow> 's world \<Rightarrow> error option \<times> 's world" where
  "DeleteTarget v projectName targetName w =
     (if \<not> isAdmin v
      then (Some (ErrorString ''admin credentials must be used to delete target''), w)
      else
        let path = ''aws/roles/'' @ vaultProjectPrefix @ ''-'' @ projectName
                     @ ''-target-'' @ targetName
        in case svc_Delete v path w of ((_, err), w') \<Rightarrow> (err, w'))"

text \<open>
  The loop of \<open>GetTarget\<close> over \<open>policyArns\<close>, appending to \<open>policies\<close>;
  \<open>None\<close> when an element is not a string.
\<close>

fun collect_policies :: "go_value list \<Rightarrow> string slice \<Rightarrow> string slice option" where
  "collect_policies [] policies = Some policies"
| "collect_policies (x # xs) policies =
     (case assert_string x of
        None \<Rightarrow> None
      | Some p \<Rightarrow> collect_policies xs (append_slice policies p))"

definition GetTarget ::
  "'s VaultProvider \<Rightarrow> string \<Rightarrow> string \<Rightarrow> 's world \<Rightarrow> TargetProperties result \<times> 's world" where
  "GetTarget v projectName targetName w =
     (if \<not> isAdmin v
      then (Failed (ErrorString ''admin credentials must be used to get target information''), w)
      else
        case svc_Read v (''aws/roles/argo-cloudops-projects-'' @ projectName
                           @ ''-target-'' @ targetName) w of
          ((_, Some err), w') \<Rightarrow>
            (Failed (ErrorString (''vault get target error: '' @ Error err)), w')
        | ((None, None), w') \<Rightarrow> (Failed (ErrorString ''target not found''), w')
        | ((Some sec, None), w') \<Rightarrow>
            (case assert_list (index_map (Data sec) ''role_arns'') of
               None \<Rightarrow> (Panicked InterfaceConversion, w')
             | Some [] \<Rightarrow> (Panicked IndexOutOfRange, w')
             | Some (first # _) \<Rightarrow>
                 (case assert_string first of
                    None \<Rightarrow> (Panicked InterfaceConversion, w')
                  | Some roleArn \<Rightarrow>
                      (case assert_list (index_map (Data sec) ''policy_arns'') of
                         None \<Rightarrow> (Panicked InterfaceConversion, w')
                       | Some policyArns \<Rightarrow>
                           (case assert_string (index_map (Data sec) ''credential_type'') of
                              None \<Rightarrow> (Panicked InterfaceConversion, w')
                            | Some credentialType \<Rightarrow>
                                (case collect_policies policyArns NilSlice of
                                   None \<Rightarrow> (Panicked InterfaceConversion, w')
                                 | Some policies \<Rightarrow>
                                     (Ok \<lparr>CredentialType = credentialType,
                                          PolicyArns = policies,
                                          RoleArn = roleArn\<rparr>, w')))))))"

text \<open>
  The loop of \<open>ListTargets\<close> over the listed keys, appending to \<open>list\<close>;
  \<open>None\<close> when a key is not a string.
\<close>

fun filter_targets :: "string \<Rightarrow> go_value list \<Rightarrow> string slice \<Rightarrow> string slice option" where
  "filter_targets project [] list = Some list"
| "filter_targets project (target # rest) list =
     (case assert_string target of
        None \<Rightarrow> None
      | Some val \<Rightarrow>
          (let prefix = ''argo-cloudops-projects-'' @ project @ ''-target-'' in
           if HasPrefix val prefix
           then filter_targets project rest (append_slice list (Replace val prefix [] 1))
           else filter_targets project rest list))"

definition ListTargets ::
  "'s VaultProvider \<Rightarrow> string \<Rightarrow> 's world \<Rightarrow> string slice result \<times> 's world" where
  "ListTargets v project w =
     (if \<not> isAdmin v
      then (Failed (ErrorString ''admin credentials must be used to list targets''), w)
      else
        case svc_List v ''aws/roles/'' w of
          ((_, Some err), w') \<Rightarrow> (Failed (ErrorString (''vault list error: '' @ Error err)), w')
        | ((None, None), w') \<Rightarrow> (Ok (Slice []), w')
        | ((Some sec, None), w') \<Rightarrow>
            (case assert_list (index_map (Data sec) ''keys'') of
               None \<Rightarrow> (Panicked InterfaceConversion, w')
             | Some keys \<Rightarrow>
                 (case filter_targets project keys (Slice []) of
                    None \<Rightarrow> (Panicked InterfaceConversion, w')
                  | Some list \<Rightarrow> (Ok list, w'))))"

definition TargetExists :: "'s VaultProvider \<Rightarrow> string \<Rightarrow> 's world \<Rightarrow> bool result \<times> 's world" where
  "TargetExists v name w = (Ok False, w)"

subsection \<open>Tokens\<close>

definition GetToken :: "'s VaultProvider \<Rightarrow> 's world \<Rightarrow> string result \<times> 's world" where
  "GetToken v w =
     (if isAdmin v
      then (Failed (ErrorString ''admin credentials cannot be used to get tokens''), w)
      else
        let options = [''role_id'' \<mapsto> VString (roleID v), ''secret_id'' \<mapsto> VString (secretID v)]
        in case svc_Write v ''auth/approle/login'' options w of
             ((_, Some err), w') \<Rightarrow> (Failed err, w'\<lparr>stdout := stdout w' @ [Error err]\<rparr>)
           | ((None, None), w') \<Rightarrow> (Panicked NilPointerDereference, w')
           | ((Some sec, None), w') \<Rightarrow>
               (case Auth sec of
                  None \<Rightarrow> (Panicked NilPointerDereference, w')
                | Some auth \<Rightarrow> (Ok (ClientToken auth), w')))"

section \<open>Test doubles for the backend\<close>

text \<open>
  A scripted backend: its state is the list of responses still to be given to calls of
  the key-value interface and the list of errors still to be given to calls of the
  policy interface. An exhausted script answers nil.
\<close>

type_synonym script = "response list \<times> error option list"

definition next_response :: "script \<Rightarrow> response \<times> script" where
  "next_response s =
     (case fst s of [] \<Rightarrow> ((None, None), s) | r # rs \<Rightarrow> (r, (rs, snd s)))"

definition next_error :: "script \<Rightarrow> error option \<times> script" where
  "next_error s =
     (case snd s of [] \<Rightarrow> (None, s) | e # es \<Rightarrow> (e, (fst s, es)))"

definition scripted :: "script vault_Client" where
  "scripted =
     \<lparr>Logical =
        \<lparr>Delete = (\<lambda>path. next_response), List = (\<lambda>path. next_response),
         Read = (\<lambda>path. next_response), Write = (\<lambda>path data. next_response)\<rparr>,
      Sys = \<lparr>DeletePolicy = (\<lambda>name. next_error), PutPolicy = (\<lambda>name rules. next_error)\<rparr>\<rparr>"

text \<open>
  A key-value store: a read returns \<open>norm\<close> of the data last written at the path, nil
  where nothing was written. With \<open>norm\<close> the identity it returns exactly what was
  written.
\<close>

type_synonym store = "(string \<times> (string \<rightharpoonup> go_value)) list"

definition store_client ::
  "((string \<rightharpoonup> go_value) \<Rightarrow> (string \<rightharpoonup> go_value)) \<Rightarrow> store vault_Client" where
  "store_client norm =
     \<lparr>Logical =
        \<lparr>Delete = (\<lambda>path s. ((None, None), filter (\<lambda>(p, d). p \<noteq> path) s)),
         List = (\<lambda>path s.
           (if list_ex (\<lambda>(p, d). HasPrefix p path) s
            then (Some \<lparr>Data = [''keys'' \<mapsto>
                    VList (map (\<lambda>(p, d). VString (drop (length path) p))
                             (filter (\<lambda>(p, d). HasPrefix p path) s))],
                        Auth = None\<rparr>, None)
            else (None, None), s)),
         Read = (\<lambda>path s.
           ((map_option (\<lambda>d. \<lparr>Data = norm d, Auth = None\<rparr>) (map_of s path), None), s)),
         Write = (\<lambda>path data s. ((None, None), (path, data) # filter (\<lambda>(p, d). p \<noteq> path) s))\<rparr>,
      Sys = \<lparr>DeletePolicy = (\<lambda>name s. (None, s)), PutPolicy = (\<lambda>name rules s. (None, s))\<rparr>\<rparr>"

text \<open>
  The shape in which a role entry comes back from a store that keeps \<open>role_arns\<close> as a
  list and whose transport decodes every list as \<open>[]interface{}\<close>.
\<close>

definition listed_form :: "(string \<rightharpoonup> go_value) \<Rightarrow> (string \<rightharpoonup> go_value)" where
  "listed_form data =
     (\<lambda>k. case data k of
        None \<Rightarrow> None
      | Some (VStrings xs) \<Rightarrow> Some (VList (map VString (elems xs)))
      | Some (VString s) \<Rightarrow>
          (if k = ''role_arns'' then Some (VList [VString s]) else Some (VString s))
      | Some x \<Rightarrow> Some x)"

definition init_world :: "'s \<Rightarrow> 's world" where
  "init_world s = \<lparr>trace = [], stdout = [], backend = s\<rparr>"

text \<open>Example credentials: a tenant, and two callers that present the key "admin".\<close>

definition tenant :: Authorization where
  "tenant = \<lparr>Provider = ''vault'', Key = ''role-1234'', Secret = ''s3cr3t''\<rparr>"

definition alice :: Authorization where
  "alice = \<lparr>Provider = ''vault'', Key = ''admin'', Secret = ''right''\<rparr>"

definition mallory :: Authorization where
  "mallory = \<lparr>Provider = ''other'', Key = ''admin'', Secret = ''wrong''\<rparr>"

text \<open>Scripts for the login endpoint: one that issues a token, one that rejects.\<close>

definition login_ok :: script where
  "login_ok = ([(Some \<lparr>Data = Map.empty, Auth = Some \<lparr>ClientToken = ''hvs.token''\<rparr>\<rparr>, None)], [])"

definition login_rejected :: script where
  "login_rejected = ([(None, Some (ErrorString ''invalid role or secret ID''))], [])"

text \<open>A script on which every step of creating a project succeeds.\<close>

definition create_ok :: script where
  "create_ok =
     ([(None, None),
       (Some \<lparr>Data = [''secret_id'' \<mapsto> VString ''sid-1''], Auth = None\<rparr>, None),
       (Some \<lparr>Data = [''role_id'' \<mapsto> VString ''rid-1''], Auth = None\<rparr>, None)],
      [None])"

text \<open>
  A script that answers nil to every call, and one that answers nil to the read of the
  roleID only.
\<close>

definition all_nil :: script where
  "all_nil = ([], [])"

definition role_id_nil :: script where
  "role_id_nil =
     ([(None, None),
       (Some \<lparr>Data = [''secret_id'' \<mapsto> VString ''sid-1''], Auth = None\<rparr>, None),
       (None, None)],
      [None])"

text \<open>A script whose listing holds two targets of one project and one of another.\<close>

definition listing :: script where
  "listing =
     ([(Some \<lparr>Data = [''keys'' \<mapsto> VList (map VString
                [''argo-cloudops-projects-proj1-target-a'',
                 ''argo-cloudops-projects-proj1-target-b'',
                 ''argo-cloudops-projects-proj2-target-c''])],
              Auth = None\<rparr>, None)], [])"

text \<open>
  Scripts for reading a target: a secret without fields, one whose \<open>role_arns\<close> is
  empty, and one whose \<open>role_arns\<close> holds a string followed by a number.
\<close>

definition no_fields :: script where
  "no_fields = ([(Some \<lparr>Data = Map.empty, Auth = None\<rparr>, None)], [])"

definition no_role_arns :: script where
  "no_role_arns =
     ([(Some \<lparr>Data = [''role_arns'' \<mapsto> VList [], ''policy_arns'' \<mapsto> VList [],
                      ''credential_type'' \<mapsto> VString ''assumed_role''],
              Auth = None\<rparr>, None)], [])"

definition mixed_role_arns :: script where
  "mixed_role_arns =
     ([(Some \<lparr>Data = [''role_arns'' \<mapsto> VList [VString ''arn:role'', VInt 5],
                      ''policy_arns'' \<mapsto> VList [VString ''arn:policy''],
                      ''credential_type'' \<mapsto> VString ''assumed_role''],
              Auth = None\<rparr>, None)], [])"

text \<open>A request for a target \<open>t\<close> with one policy.\<close>

definition example_request :: CreateTargetRequest where
  "example_request =
     \<lparr>Name = ''t'',
      Properties = \<lparr>CredentialType = ''assumed_role'',
                    PolicyArns = Slice [''arn:aws:iam::1:policy/ro''],
                    RoleArn = ''arn:aws:iam::1:role/deploy''\<rparr>,
      Type = ''aws_account''\<rparr>"

section \<open>Reading a policy text\<close>







section \<open>Parsing the authorization header\<close>

lemma HasPrefix_colon: "HasPrefix (c # cs) '':'' = (c = CHR '':'')"
  by (simp add: HasPrefix_def)

lemma Index_colon_append:
  "CHR '':'' \<notin> set p \<Longrightarrow> Index (p @ CHR '':'' # r) '':'' = Some (length p)"
  by (induction p) (auto simp: HasPrefix_colon)

lemma Index_colon_Some:
  "Index s '':'' = Some m \<Longrightarrow>
     s = take m s @ '':'' @ drop (m + 1) s \<and> CHR '':'' \<notin> set (take m s)"
proof (induction s arbitrary: m)
  case Nil
  then show ?case by simp
next
  case (Cons c cs)
  show ?case
  proof (cases "c = CHR '':''")
    case True
    with Cons.prems show ?thesis by (simp add: HasPrefix_colon)
  next
    case False
    with Cons.prems obtain m' where m': "Index cs '':'' = Some m'" "m = Suc m'"
      by (auto simp: HasPrefix_colon)
    from Cons.IH [OF m'(1)] False m'(2) show ?thesis by simp
  qed
qed

lemma SplitN_wellformed:
  assumes "CHR '':'' \<notin> set p" "CHR '':'' \<notin> set k"
  shows "SplitN (p @ CHR '':'' # k @ CHR '':'' # s) '':'' 3 = [p, k, s]"
proof -
  have "SplitN (p @ CHR '':'' # k @ CHR '':'' # s) '':'' (Suc (Suc (Suc 0))) = [p, k, s]"
    using assms by (simp add: Index_colon_append)
  then show ?thesis by (simp add: numeral_3_eq_3)
qed

lemma SplitN_three:
  assumes "SplitN h '':'' 3 = [p, k, s]"
  shows "h = p @ '':'' @ k @ '':'' @ s \<and> CHR '':'' \<notin> set p \<and> CHR '':'' \<notin> set k"
proof -
  from assms have S: "SplitN h '':'' (Suc (Suc (Suc 0))) = [p, k, s]"
    by (simp add: numeral_3_eq_3)
  then obtain m where m: "Index h '':'' = Some m"
    by (cases "Index h '':''") auto
  with S have p: "p = take m h" and R: "SplitN (drop (m + 1) h) '':'' (Suc (Suc 0)) = [k, s]"
    by auto
  then obtain n where n: "Index (drop (m + 1) h) '':'' = Some n"
    by (cases "Index (drop (m + 1) h) '':''") auto
  with R have k: "k = take n (drop (m + 1) h)" and s: "s = drop (n + 1) (drop (m + 1) h)"
    by auto
  from Index_colon_Some [OF m] Index_colon_Some [OF n] p k s show ?thesis
    by metis
qed

lemma length_SplitN_le: "length (SplitN h sep n) \<le> n"
  by (induction h sep n rule: SplitN.induct) (auto split: option.splits)

text \<open>
  Claim C5. \<open>NewAuthorization\<close> splits the header at its first two colons only. A
  header \<open>p:k:s\<close> with \<open>p\<close>, \<open>k\<close>, \<open>s\<close> non-empty and no colon in \<open>p\<close> and
  \<open>k\<close> yields the Authorization with these three fields, whatever colons \<open>s\<close>
  holds; a header that splits into fewer than three segments or into an empty segment
  fails with the error "invalid authorization header provided" and yields no
  Authorization; and every header that is accepted has that form.
\<close>

theorem NewAuthorization_spec:
  "(p \<noteq> [] \<and> k \<noteq> [] \<and> s \<noteq> [] \<and> CHR '':'' \<notin> set p \<and> CHR '':'' \<notin> set k \<longrightarrow>
      NewAuthorization (p @ '':'' @ k @ '':'' @ s) = Ok \<lparr>Provider = p, Key = k, Secret = s\<rparr>)
   \<and> (length (SplitN h '':'' 3) < 3 \<or> [] \<in> set (SplitN h '':'' 3) \<longrightarrow>
      NewAuthorization h = Failed (ErrorString ''invalid authorization header provided''))
   \<and> (NewAuthorization h = Ok a \<longrightarrow>
      h = Provider a @ '':'' @ Key a @ '':'' @ Secret a
      \<and> Provider a \<noteq> [] \<and> Key a \<noteq> [] \<and> Secret a \<noteq> []
      \<and> CHR '':'' \<notin> set (Provider a) \<and> CHR '':'' \<notin> set (Key a))"
proof -
  have wf: "NewAuthorization (p @ '':'' @ k @ '':'' @ s) = Ok \<lparr>Provider = p, Key = k, Secret = s\<rparr>"
    if "p \<noteq> [] \<and> k \<noteq> [] \<and> s \<noteq> [] \<and> CHR '':'' \<notin> set p \<and> CHR '':'' \<notin> set k"
    using that by (simp add: NewAuthorization_def SplitN_wellformed)
  have bad: "NewAuthorization h = Failed (ErrorString ''invalid authorization header provided'')"
    if "length (SplitN h '':'' 3) < 3 \<or> [] \<in> set (SplitN h '':'' 3)"
    using that by (auto simp: NewAuthorization_def Let_def list_ex_iff)
  have ok: "h = Provider a @ '':'' @ Key a @ '':'' @ Secret a
      \<and> Provider a \<noteq> [] \<and> Key a \<noteq> [] \<and> Secret a \<noteq> []
      \<and> CHR '':'' \<notin> set (Provider a) \<and> CHR '':'' \<notin> set (Key a)"
    if ok: "NewAuthorization h = Ok a"
  proof -
    let ?auth = "SplitN h '':'' 3"
    from ok have ne: "\<not> list_ex (\<lambda>i. i = []) ?auth" and len: "\<not> length ?auth < 3"
      and a: "a = \<lparr>Provider = ?auth ! 0, Key = ?auth ! 1, Secret = ?auth ! 2\<rparr>"
      by (auto simp: NewAuthorization_def Let_def split: if_splits)
    from len length_SplitN_le [of h "'':''" 3] have "length ?auth = 3" by simp
    then obtain x y z where xyz: "?auth = [x, y, z]"
      by (auto simp: length_Suc_conv numeral_3_eq_3)
    from SplitN_three [OF xyz] ne a xyz show ?thesis by simp
  qed
  from wf bad ok show ?thesis by blast
qed

text \<open>The examples of the claim, obtained from the theorem.\<close>

theorem NewAuthorization_spec_witness:
  "NewAuthorization ''p:k:s'' = Ok \<lparr>Provider = ''p'', Key = ''k'', Secret = ''s''\<rparr>
   \<and> NewAuthorization ''p:k:s:extra'' = Ok \<lparr>Provider = ''p'', Key = ''k'', Secret = ''s:extra''\<rparr>
   \<and> NewAuthorization ''p:k:'' = Failed (ErrorString ''invalid authorization header provided'')
   \<and> NewAuthorization ''p::s'' = Failed (ErrorString ''invalid authorization header provided'')
   \<and> NewAuthorization ''p:k'' = Failed (ErrorString ''invalid authorization header provided'')
   \<and> NewAuthorization [] = Failed (ErrorString ''invalid authorization header provided'')"
proof -
  have S: "SplitN ''p:k:'' '':'' 3 = [''p'', ''k'', []]" "SplitN ''p::s'' '':'' 3 = [''p'', [], ''s'']"
    "SplitN ''p:k'' '':'' 3 = [''p'', ''k'']" "SplitN [] '':'' 3 = [[]]"
    by (simp_all add: numeral_3_eq_3 HasPrefix_def)
  show ?thesis
    using NewAuthorization_spec [of "''p''" "''k''" "''s''" "''p:k:''" undefined]
      NewAuthorization_spec [of "''p''" "''k''" "''s:extra''" "''p::s''" undefined]
      NewAuthorization_spec [of "''p''" "''k''" "''s''" "''p:k''" undefined]
      NewAuthorization_spec [of "''p''" "''k''" "''s''" "[]" undefined]
    by (simp add: S)
qed

section \<open>The read-only policy\<close>







section \<open>The provider's permission checks\<close>

lemma isAdmin_NewVaultProvider: "isAdmin (NewVaultProvider svc a) = (Key a = ''admin'')"
  by (simp add: isAdmin_def NewVaultProvider_def)

lemma trace_svc_Write:
  "trace (snd (svc_Write v path data w)) = trace w @ [Call_Write path data]"
  by (simp add: svc_Write_def split: prod.splits)

lemma GetToken_trace:
  "\<not> isAdmin v \<Longrightarrow>
     trace (snd (GetToken v w)) =
       trace w @ [Call_Write ''auth/approle/login''
                    [''role_id'' \<mapsto> VString (roleID v), ''secret_id'' \<mapsto> VString (secretID v)]]"
  using trace_svc_Write [of v "''auth/approle/login''"
      "[''role_id'' \<mapsto> VString (roleID v), ''secret_id'' \<mapsto> VString (secretID v)]" w]
  by (auto simp: GetToken_def Let_def split: prod.splits option.splits)

lemma GetToken_denied_iff:
  "(GetToken v w = (Failed (ErrorString ''admin credentials cannot be used to get tokens''), w))
     = isAdmin v"
proof
  assume d: "GetToken v w = (Failed (ErrorString ''admin credentials cannot be used to get tokens''), w)"
  show "isAdmin v"
  proof (rule ccontr)
    assume "\<not> isAdmin v"
    from GetToken_trace [OF this, of w] d show False by simp
  qed
next
  assume "isAdmin v"
  then show "GetToken v w = (Failed (ErrorString ''admin credentials cannot be used to get tokens''), w)"
    by (simp add: GetToken_def)
qed

text \<open>
  Claim C1, amended. On a provider built from credentials whose key is not "admin",
  each of \<open>CreateProject\<close>, \<open>DeleteProject\<close>, \<open>CreateTarget\<close>, \<open>GetTarget\<close>,
  \<open>DeleteTarget\<close> and \<open>ListTargets\<close> returns its "admin credentials must be used"
  error and leaves the world as it was: no backend call is added to the trace.
\<close>

theorem gating_spec:
  assumes "Key a \<noteq> ''admin''"
  shows "CreateProject (NewVaultProvider svc a) name w =
           (Failed (ErrorString ''admin credentials must be used to create project''), w)
       \<and> DeleteProject (NewVaultProvider svc a) name w =
           (Some (ErrorString ''admin credentials must be used to delete project''), w)
       \<and> CreateTarget (NewVaultProvider svc a) name ctr w =
           (Some (ErrorString ''admin credentials must be used to create target''), w)
       \<and> GetTarget (NewVaultProvider svc a) name target w =
           (Failed (ErrorString ''admin credentials must be used to get target information''), w)
       \<and> DeleteTarget (NewVaultProvider svc a) name target w =
           (Some (ErrorString ''admin credentials must be used to delete target''), w)
       \<and> ListTargets (NewVaultProvider svc a) name w =
           (Failed (ErrorString ''admin credentials must be used to list targets''), w)"
  using assms
  by (simp add: isAdmin_NewVaultProvider CreateProject_def DeleteProject_def CreateTarget_def
      GetTarget_def DeleteTarget_def ListTargets_def)

theorem gating_spec_witness:
  "Key tenant \<noteq> ''admin''
   \<and> CreateProject (NewVaultProvider scripted tenant) ''p'' (init_world ([], [])) =
       (Failed (ErrorString ''admin credentials must be used to create project''), init_world ([], []))
   \<and> ListTargets (NewVaultProvider scripted tenant) ''p'' (init_world ([], [])) =
       (Failed (ErrorString ''admin credentials must be used to list targets''), init_world ([], []))"
proof -
  have k: "Key tenant \<noteq> ''admin''" by (simp add: tenant_def)
  from gating_spec [OF k, of scripted "''p''" "init_world ([], [])"] k show ?thesis by simp
qed

text \<open>
  \<open>GetProject\<close> has no such check: on a tenant's provider it reads the backend, and
  its error here is \<open>ErrNotFound\<close>.
\<close>

theorem GetProject_ungated:
  "GetProject (NewVaultProvider scripted tenant) ''p'' (init_world ([], [])) =
     (Failed ErrNotFound,
      \<lparr>trace = [Call_Read ''auth/approle/role/argo-cloudops-projects-p''], stdout = [],
       backend = ([], [])\<rparr>)"
  by (simp add: GetProject_def svc_Read_def NewVaultProvider_def scripted_def next_response_def
      init_world_def genProjectAppRole_def vaultAppRolePrefix_def vaultProjectPrefix_def)

subsection \<open>Only the key decides\<close>

lemma svc_secretID:
  "svc_Read (v\<lparr>secretID := x\<rparr>) = svc_Read v"
  "svc_Write (v\<lparr>secretID := x\<rparr>) = svc_Write v"
  "svc_List (v\<lparr>secretID := x\<rparr>) = svc_List v"
  "svc_Delete (v\<lparr>secretID := x\<rparr>) = svc_Delete v"
  "svc_PutPolicy (v\<lparr>secretID := x\<rparr>) = svc_PutPolicy v"
  "svc_DeletePolicy (v\<lparr>secretID := x\<rparr>) = svc_DeletePolicy v"
  "isAdmin (v\<lparr>secretID := x\<rparr>) = isAdmin v"
  by (simp_all add: fun_eq_iff svc_Read_def svc_Write_def svc_List_def svc_Delete_def
      svc_PutPolicy_def svc_DeletePolicy_def isAdmin_def)

lemma helpers_secretID:
  "createPolicyState (v\<lparr>secretID := x\<rparr>) = createPolicyState v"
  "deletePolicyState (v\<lparr>secretID := x\<rparr>) = deletePolicyState v"
  "writeProjectState (v\<lparr>secretID := x\<rparr>) = writeProjectState v"
  "readRoleID (v\<lparr>secretID := x\<rparr>) = readRoleID v"
  "readSecretID (v\<lparr>secretID := x\<rparr>) = readSecretID v"
  unfolding fun_eq_iff createPolicyState_def deletePolicyState_def writeProjectState_def
      readRoleID_def readSecretID_def svc_secretID
  by (rule allI refl)+

lemma operations_secretID:
  "CreateProject (v\<lparr>secretID := x\<rparr>) = CreateProject v"
  "DeleteProject (v\<lparr>secretID := x\<rparr>) = DeleteProject v"
  "GetProject (v\<lparr>secretID := x\<rparr>) = GetProject v"
  "CreateTarget (v\<lparr>secretID := x\<rparr>) = CreateTarget v"
  "GetTarget (v\<lparr>secretID := x\<rparr>) = GetTarget v"
  "DeleteTarget (v\<lparr>secretID := x\<rparr>) = DeleteTarget v"
  "ListTargets (v\<lparr>secretID := x\<rparr>) = ListTargets v"
  "TargetExists (v\<lparr>secretID := x\<rparr>) = TargetExists v"
  unfolding fun_eq_iff CreateProject_def DeleteProject_def GetProject_def
      CreateTarget_def GetTarget_def DeleteTarget_def ListTargets_def TargetExists_def
      svc_secretID helpers_secretID
  by (rule allI refl)+

lemma ProjectExists_secretID: "ProjectExists (v\<lparr>secretID := x\<rparr>) = ProjectExists v"
  unfolding fun_eq_iff ProjectExists_def operations_secretID
  by (rule allI refl)+

lemma NewVaultProvider_same_key:
  "Key a = Key a' \<Longrightarrow>
     NewVaultProvider svc a = (NewVaultProvider svc a')\<lparr>secretID := Secret a\<rparr>"
  by (simp add: NewVaultProvider_def)

text \<open>
  Claim C2. Two Authorizations with the same key give providers that agree on
  \<open>isAdmin\<close> and on every operation that does not send the secret, whatever their
  provider and secret fields are; \<open>GetToken\<close>, which sends the secret to the backend,
  takes its permission branch for the one exactly when it does for the other. No
  operation takes an admin secret to compare with.
\<close>

theorem authorization_by_key:
  assumes "Key a = Key a'"
  shows "isAdmin (NewVaultProvider svc a) = isAdmin (NewVaultProvider svc a')
       \<and> CreateProject (NewVaultProvider svc a) = CreateProject (NewVaultProvider svc a')
       \<and> DeleteProject (NewVaultProvider svc a) = DeleteProject (NewVaultProvider svc a')
       \<and> GetProject (NewVaultProvider svc a) = GetProject (NewVaultProvider svc a')
       \<and> ProjectExists (NewVaultProvider svc a) = ProjectExists (NewVaultProvider svc a')
       \<and> CreateTarget (NewVaultProvider svc a) = CreateTarget (NewVaultProvider svc a')
       \<and> GetTarget (NewVaultProvider svc a) = GetTarget (NewVaultProvider svc a')
       \<and> DeleteTarget (NewVaultProvider svc a) = DeleteTarget (NewVaultProvider svc a')
       \<and> ListTargets (NewVaultProvider svc a) = ListTargets (NewVaultProvider svc a')
       \<and> TargetExists (NewVaultProvider svc a) = TargetExists (NewVaultProvider svc a')
       \<and> (GetToken (NewVaultProvider svc a) w =
             (Failed (ErrorString ''admin credentials cannot be used to get tokens''), w))
         = (GetToken (NewVaultProvider svc a') w =
             (Failed (ErrorString ''admin credentials cannot be used to get tokens''), w))"
proof -
  from assms have v: "NewVaultProvider svc a = (NewVaultProvider svc a')\<lparr>secretID := Secret a\<rparr>"
    by (rule NewVaultProvider_same_key)
  have tok: "(GetToken (NewVaultProvider svc a) w =
             (Failed (ErrorString ''admin credentials cannot be used to get tokens''), w))
         = (GetToken (NewVaultProvider svc a') w =
             (Failed (ErrorString ''admin credentials cannot be used to get tokens''), w))"
    using assms by (simp add: GetToken_denied_iff isAdmin_NewVaultProvider)
  show ?thesis
    unfolding v using tok [unfolded v]
    by (simp only: svc_secretID operations_secretID ProjectExists_secretID simp_thms)
qed

theorem authorization_by_key_witness:
  "Key alice = Key mallory \<and> Secret alice \<noteq> Secret mallory \<and> Provider alice \<noteq> Provider mallory
   \<and> AuthorizedAdmin alice ''right'' \<and> \<not> AuthorizedAdmin mallory ''right''
   \<and> isAdmin (NewVaultProvider scripted mallory)
   \<and> CreateProject (NewVaultProvider scripted alice) = CreateProject (NewVaultProvider scripted mallory)
   \<and> ListTargets (NewVaultProvider scripted alice) = ListTargets (NewVaultProvider scripted mallory)"
proof -
  have k: "Key alice = Key mallory" by (simp add: alice_def mallory_def)
  have "isAdmin (NewVaultProvider scripted mallory)"
    by (simp add: isAdmin_def NewVaultProvider_def mallory_def)
  with authorization_by_key [OF k, of scripted undefined] k show ?thesis
    by (simp add: alice_def mallory_def AuthorizedAdmin_def IsAdmin_def)
qed

section \<open>Token exchange\<close>

lemmas path_defs = genProjectAppRole_def vaultAppRolePrefix_def vaultProjectPrefix_def
  vaultSecretTTL_def vaultTokenMaxTTL_def vaultTokenNumUses_def

lemmas svc_defs = svc_Read_def svc_Write_def svc_List_def svc_Delete_def svc_PutPolicy_def
  svc_DeletePolicy_def

text \<open>
  Claim C3. On a provider built from credentials with key "admin", \<open>GetToken\<close> fails
  with "admin credentials cannot be used to get tokens" and issues no call. On any other
  provider it issues exactly one call, a write of \<open>{role_id: Key, secret_id: Secret}\<close>
  to \<open>auth/approle/login\<close>; when the backend answers with a secret carrying a token,
  that token is the result, and when the backend answers with an error, that error is the
  result (after its message was printed).
\<close>

theorem GetToken_spec:
  "(Key a = ''admin'' \<longrightarrow>
      GetToken (NewVaultProvider svc a) w =
        (Failed (ErrorString ''admin credentials cannot be used to get tokens''), w))
   \<and> (Key a \<noteq> ''admin''
        \<and> Write (Logical svc) ''auth/approle/login''
            [''role_id'' \<mapsto> VString (Key a), ''secret_id'' \<mapsto> VString (Secret a)] (backend w)
          = ((Some sec, None), s')
        \<and> Auth sec = Some auth \<longrightarrow>
      GetToken (NewVaultProvider svc a) w =
        (Ok (ClientToken auth),
         w\<lparr>trace := trace w @ [Call_Write ''auth/approle/login''
              [''role_id'' \<mapsto> VString (Key a), ''secret_id'' \<mapsto> VString (Secret a)]],
           backend := s'\<rparr>))
   \<and> (Key a \<noteq> ''admin''
        \<and> Write (Logical svc) ''auth/approle/login''
            [''role_id'' \<mapsto> VString (Key a), ''secret_id'' \<mapsto> VString (Secret a)] (backend w)
          = ((x, Some err), s'') \<longrightarrow>
      GetToken (NewVaultProvider svc a) w =
        (Failed err,
         w\<lparr>trace := trace w @ [Call_Write ''auth/approle/login''
              [''role_id'' \<mapsto> VString (Key a), ''secret_id'' \<mapsto> VString (Secret a)]],
           stdout := stdout w @ [Error err],
           backend := s''\<rparr>))"
  by (simp add: GetToken_def isAdmin_def NewVaultProvider_def svc_Write_def Let_def
      split: option.split)

theorem GetToken_spec_witness:
  "GetToken (NewVaultProvider scripted mallory) (init_world login_ok) =
     (Failed (ErrorString ''admin credentials cannot be used to get tokens''), init_world login_ok)
   \<and> GetToken (NewVaultProvider scripted tenant) (init_world login_ok) =
     (Ok ''hvs.token'',
      \<lparr>trace = [Call_Write ''auth/approle/login''
                 [''role_id'' \<mapsto> VString ''role-1234'', ''secret_id'' \<mapsto> VString ''s3cr3t'']],
       stdout = [], backend = ([], [])\<rparr>)
   \<and> GetToken (NewVaultProvider scripted tenant) (init_world login_rejected) =
     (Failed (ErrorString ''invalid role or secret ID''),
      \<lparr>trace = [Call_Write ''auth/approle/login''
                 [''role_id'' \<mapsto> VString ''role-1234'', ''secret_id'' \<mapsto> VString ''s3cr3t'']],
       stdout = [''invalid role or secret ID''], backend = ([], [])\<rparr>)"
proof -
  have ok: "Write (Logical scripted) ''auth/approle/login''
      [''role_id'' \<mapsto> VString (Key tenant), ''secret_id'' \<mapsto> VString (Secret tenant)]
      (backend (init_world login_ok))
    = ((Some \<lparr>Data = Map.empty, Auth = Some \<lparr>ClientToken = ''hvs.token''\<rparr>\<rparr>, None), ([], []))"
    by (simp add: scripted_def next_response_def init_world_def login_ok_def)
  have rej: "Write (Logical scripted) ''auth/approle/login''
      [''role_id'' \<mapsto> VString (Key tenant), ''secret_id'' \<mapsto> VString (Secret tenant)]
      (backend (init_world login_rejected))
    = ((None, Some (ErrorString ''invalid role or secret ID'')), ([], []))"
    by (simp add: scripted_def next_response_def init_world_def login_rejected_def)
  have k: "Key mallory = ''admin''" "Key tenant \<noteq> ''admin''"
    by (simp_all add: mallory_def tenant_def)
  from GetToken_spec [of mallory scripted "init_world login_ok" undefined undefined undefined
      undefined undefined undefined] k
  have 1: "GetToken (NewVaultProvider scripted mallory) (init_world login_ok) =
     (Failed (ErrorString ''admin credentials cannot be used to get tokens''), init_world login_ok)"
    by blast
  from GetToken_spec [of tenant scripted "init_world login_ok"
      "\<lparr>Data = Map.empty, Auth = Some \<lparr>ClientToken = ''hvs.token''\<rparr>\<rparr>" "([], [])"
      "\<lparr>ClientToken = ''hvs.token''\<rparr>" undefined undefined undefined] k ok
  have 2: "GetToken (NewVaultProvider scripted tenant) (init_world login_ok) =
     (Ok ''hvs.token'',
      \<lparr>trace = [Call_Write ''auth/approle/login''
                 [''role_id'' \<mapsto> VString ''role-1234'', ''secret_id'' \<mapsto> VString ''s3cr3t'']],
       stdout = [], backend = ([], [])\<rparr>)"
    by (simp add: init_world_def tenant_def)
  from GetToken_spec [of tenant scripted "init_world login_rejected" undefined undefined undefined
      None "ErrorString ''invalid role or secret ID''" "([], [])"] k rej
  have 3: "GetToken (NewVaultProvider scripted tenant) (init_world login_rejected) =
     (Failed (ErrorString ''invalid role or secret ID''),
      \<lparr>trace = [Call_Write ''auth/approle/login''
                 [''role_id'' \<mapsto> VString ''role-1234'', ''secret_id'' \<mapsto> VString ''s3cr3t'']],
       stdout = [''invalid role or secret ID''], backend = ([], [])\<rparr>)"
    by (simp add: init_world_def tenant_def)
  from 1 2 3 show ?thesis by blast
qed

section \<open>Creating a project\<close>

lemma createPolicyState_eq:
  "PutPolicy (vaultSysSvc v) (''argo-cloudops-projects-'' @ name) policy (backend w) = (e, s') \<Longrightarrow>
     createPolicyState v name policy w =
       (e, w\<lparr>trace := trace w @ [Call_PutPolicy (''argo-cloudops-projects-'' @ name) policy],
            backend := s'\<rparr>)"
  by (simp add: createPolicyState_def svc_PutPolicy_def vaultProjectPrefix_def)

lemma writeProjectState_eq:
  "Write (vaultLogicalSvc v) (''auth/approle/role/argo-cloudops-projects-'' @ name)
      [''secret_id_ttl'' \<mapsto> VString ''8776h'', ''token_max_ttl'' \<mapsto> VString ''10m'',
       ''token_no_default_policy'' \<mapsto> VString ''true'', ''token_num_uses'' \<mapsto> VInt 3,
       ''token_policies'' \<mapsto> VString (''argo-cloudops-projects-'' @ name)] (backend w)
     = ((x, e), s') \<Longrightarrow>
   writeProjectState v name w =
     (e, w\<lparr>trace := trace w @ [Call_Write (''auth/approle/role/argo-cloudops-projects-'' @ name)
        [''secret_id_ttl'' \<mapsto> VString ''8776h'', ''token_max_ttl'' \<mapsto> VString ''10m'',
         ''token_no_default_policy'' \<mapsto> VString ''true'', ''token_num_uses'' \<mapsto> VInt 3,
         ''token_policies'' \<mapsto> VString (''argo-cloudops-projects-'' @ name)]],
        backend := s'\<rparr>)"
  by (simp add: writeProjectState_def svc_Write_def path_defs Let_def split: option.split)

lemma readSecretID_eq:
  "Write (vaultLogicalSvc v) (''auth/approle/role/argo-cloudops-projects-'' @ name @ ''/secret-id'')
      [''force'' \<mapsto> VBool True] (backend w) = ((x, e), s') \<Longrightarrow>
   readSecretID v name w =
     (case e of
        Some err \<Rightarrow> Failed err
      | None \<Rightarrow>
          (case x of
             None \<Rightarrow> Panicked NilPointerDereference
           | Some secret \<Rightarrow>
               (case assert_string (index_map (Data secret) ''secret_id'') of
                  None \<Rightarrow> Panicked InterfaceConversion
                | Some s \<Rightarrow> Ok s)),
      w\<lparr>trace := trace w @ [Call_Write
             (''auth/approle/role/argo-cloudops-projects-'' @ name @ ''/secret-id'')
             [''force'' \<mapsto> VBool True]],
        backend := s'\<rparr>)"
  by (simp add: readSecretID_def svc_Write_def path_defs Let_def
      split: option.split go_value.split)

lemma readRoleID_eq:
  "Read (vaultLogicalSvc v) (''auth/approle/role/argo-cloudops-projects-'' @ name @ ''/role-id'')
      (backend w) = ((x, e), s') \<Longrightarrow>
   readRoleID v name w =
     (case e of
        Some err \<Rightarrow> Failed err
      | None \<Rightarrow>
          (case x of
             None \<Rightarrow> Panicked NilPointerDereference
           | Some secret \<Rightarrow>
               (case assert_string (index_map (Data secret) ''role_id'') of
                  None \<Rightarrow> Panicked InterfaceConversion
                | Some s \<Rightarrow> Ok s)),
      w\<lparr>trace := trace w @ [Call_Read
             (''auth/approle/role/argo-cloudops-projects-'' @ name @ ''/role-id'')],
        backend := s'\<rparr>)"
  by (simp add: readRoleID_def svc_Read_def path_defs Let_def
      split: option.split go_value.split)

lemma index_map_Some: "m k = Some x \<Longrightarrow> index_map m k = x"
  by (simp add: index_map_def)

lemma assert_string_Some: "(assert_string x = Some s) = (x = VString s)"
  by (cases x) auto

lemma assert_list_Some: "(assert_list x = Some xs) = (x = VList xs)"
  by (cases x) auto

lemma CreateProject_outcome:
  assumes "isAdmin v"
    and "PutPolicy (vaultSysSvc v) (''argo-cloudops-projects-'' @ name)
           (defaultVaultReadonlyPolicyAWS name) (backend w) = (e1, s1)"
    and "Write (vaultLogicalSvc v) (''auth/approle/role/argo-cloudops-projects-'' @ name)
           [''secret_id_ttl'' \<mapsto> VString ''8776h'', ''token_max_ttl'' \<mapsto> VString ''10m'',
            ''token_no_default_policy'' \<mapsto> VString ''true'', ''token_num_uses'' \<mapsto> VInt 3,
            ''token_policies'' \<mapsto> VString (''argo-cloudops-projects-'' @ name)] s1
         = ((x2, e2), s2)"
    and "Write (vaultLogicalSvc v)
           (''auth/approle/role/argo-cloudops-projects-'' @ name @ ''/secret-id'')
           [''force'' \<mapsto> VBool True] s2 = ((x3, e3), s3)"
    and "Read (vaultLogicalSvc v)
           (''auth/approle/role/argo-cloudops-projects-'' @ name @ ''/role-id'') s3
         = ((x4, e4), s4)"
  shows "fst (CreateProject v name w) =
     (case e1 of Some err \<Rightarrow> Failed err | None \<Rightarrow>
      case e2 of Some err \<Rightarrow> Failed err | None \<Rightarrow>
      case e3 of Some err \<Rightarrow> Failed err | None \<Rightarrow>
      case x3 of None \<Rightarrow> Panicked NilPointerDereference | Some sec3 \<Rightarrow>
      case assert_string (index_map (Data sec3) ''secret_id'') of
        None \<Rightarrow> Panicked InterfaceConversion | Some sid \<Rightarrow>
      case e4 of Some err \<Rightarrow> Failed err | None \<Rightarrow>
      case x4 of None \<Rightarrow> Panicked NilPointerDereference | Some sec4 \<Rightarrow>
      case assert_string (index_map (Data sec4) ''role_id'') of
        None \<Rightarrow> Panicked InterfaceConversion | Some rid \<Rightarrow> Ok (rid, sid))"
  using assms
  by (simp add: CreateProject_def createPolicyState_eq writeProjectState_eq readSecretID_eq
      readRoleID_eq split: option.split)

text \<open>
  Claim C4, amended. On an admin provider \<open>CreateProject\<close> issues, in this order,
  (a) the write of the project's policy, (b) the write of the project's role with
  \<open>secret_id_ttl = "8776h"\<close>, \<open>token_max_ttl = "10m"\<close>, \<open>token_num_uses = 3\<close>,
  \<open>token_no_default_policy = "true"\<close> and \<open>token_policies\<close> the project's own policy
  name, (c) the forced write that generates the secretID, and (d) the read of the roleID.
  The first step the backend answers with an error ends the call with that error, with
  the earlier steps left done and no later step issued; \<open>(roleID, secretID)\<close> is
  returned only when no step gave an error and the two answers carry the identifiers.
\<close>

theorem CreateProject_spec:
  assumes "isAdmin v"
    and "PutPolicy (vaultSysSvc v) (''argo-cloudops-projects-'' @ name)
           (defaultVaultReadonlyPolicyAWS name) (backend w) = (e1, s1)"
    and "Write (vaultLogicalSvc v) (''auth/approle/role/argo-cloudops-projects-'' @ name)
           [''secret_id_ttl'' \<mapsto> VString ''8776h'', ''token_max_ttl'' \<mapsto> VString ''10m'',
            ''token_no_default_policy'' \<mapsto> VString ''true'', ''token_num_uses'' \<mapsto> VInt 3,
            ''token_policies'' \<mapsto> VString (''argo-cloudops-projects-'' @ name)] s1
         = ((x2, e2), s2)"
    and "Write (vaultLogicalSvc v)
           (''auth/approle/role/argo-cloudops-projects-'' @ name @ ''/secret-id'')
           [''force'' \<mapsto> VBool True] s2 = ((x3, e3), s3)"
    and "Read (vaultLogicalSvc v)
           (''auth/approle/role/argo-cloudops-projects-'' @ name @ ''/role-id'') s3
         = ((x4, e4), s4)"
  shows "(e1 = Some err \<longrightarrow>
            CreateProject v name w =
              (Failed err,
               w\<lparr>trace := trace w @
             [Call_PutPolicy (''argo-cloudops-projects-'' @ name) (defaultVaultReadonlyPolicyAWS name)],
           backend := s1\<rparr>))
     \<and> (e1 = None \<and> e2 = Some err \<longrightarrow>
            CreateProject v name w =
              (Failed err,
               w\<lparr>trace := trace w @
             [Call_PutPolicy (''argo-cloudops-projects-'' @ name) (defaultVaultReadonlyPolicyAWS name),
              Call_Write (''auth/approle/role/argo-cloudops-projects-'' @ name)
              [''secret_id_ttl'' \<mapsto> VString ''8776h'', ''token_max_ttl'' \<mapsto> VString ''10m'',
               ''token_no_default_policy'' \<mapsto> VString ''true'', ''token_num_uses'' \<mapsto> VInt 3,
               ''token_policies'' \<mapsto> VString (''argo-cloudops-projects-'' @ name)]],
           backend := s2\<rparr>))
     \<and> (e1 = None \<and> e2 = None \<and> e3 = Some err \<longrightarrow>
            CreateProject v name w =
              (Failed err,
               w\<lparr>trace := trace w @
             [Call_PutPolicy (''argo-cloudops-projects-'' @ name) (defaultVaultReadonlyPolicyAWS name),
              Call_Write (''auth/approle/role/argo-cloudops-projects-'' @ name)
              [''secret_id_ttl'' \<mapsto> VString ''8776h'', ''token_max_ttl'' \<mapsto> VString ''10m'',
               ''token_no_default_policy'' \<mapsto> VString ''true'', ''token_num_uses'' \<mapsto> VInt 3,
               ''token_policies'' \<mapsto> VString (''argo-cloudops-projects-'' @ name)],
              Call_Write (''auth/approle/role/argo-cloudops-projects-'' @ name @ ''/secret-id'')
              [''force'' \<mapsto> VBool True]],
           backend := s3\<rparr>))
     \<and> (e1 = None \<and> e2 = None \<and> e3 = None
          \<and> x3 = Some sec3 \<and> Data sec3 ''secret_id'' = Some (VString sid)
          \<and> e4 = Some err \<longrightarrow>
            CreateProject v name w =
              (Failed err,
               w\<lparr>trace := trace w @
             [Call_PutPolicy (''argo-cloudops-projects-'' @ name) (defaultVaultReadonlyPolicyAWS name),
              Call_Write (''auth/approle/role/argo-cloudops-projects-'' @ name)
              [''secret_id_ttl'' \<mapsto> VString ''8776h'', ''token_max_ttl'' \<mapsto> VString ''10m'',
               ''token_no_default_policy'' \<mapsto> VString ''true'', ''token_num_uses'' \<mapsto> VInt 3,
               ''token_policies'' \<mapsto> VString (''argo-cloudops-projects-'' @ name)],
              Call_Write (''auth/approle/role/argo-cloudops-projects-'' @ name @ ''/secret-id'')
              [''force'' \<mapsto> VBool True],
              Call_Read (''auth/approle/role/argo-cloudops-projects-'' @ name @ ''/role-id'')],
           backend := s4\<rparr>))
     \<and> (e1 = None \<and> e2 = None \<and> e3 = None \<and> e4 = None
          \<and> x3 = Some sec3 \<and> Data sec3 ''secret_id'' = Some (VString sid)
          \<and> x4 = Some sec4 \<and> Data sec4 ''role_id'' = Some (VString rid) \<longrightarrow>
            CreateProject v name w =
              (Ok (rid, sid),
               w\<lparr>trace := trace w @
             [Call_PutPolicy (''argo-cloudops-projects-'' @ name) (defaultVaultReadonlyPolicyAWS name),
              Call_Write (''auth/approle/role/argo-cloudops-projects-'' @ name)
              [''secret_id_ttl'' \<mapsto> VString ''8776h'', ''token_max_ttl'' \<mapsto> VString ''10m'',
               ''token_no_default_policy'' \<mapsto> VString ''true'', ''token_num_uses'' \<mapsto> VInt 3,
               ''token_policies'' \<mapsto> VString (''argo-cloudops-projects-'' @ name)],
              Call_Write (''auth/approle/role/argo-cloudops-projects-'' @ name @ ''/secret-id'')
              [''force'' \<mapsto> VBool True],
              Call_Read (''auth/approle/role/argo-cloudops-projects-'' @ name @ ''/role-id'')],
           backend := s4\<rparr>))
     \<and> (fst (CreateProject v name w) = Ok (r, s) \<longrightarrow>
            e1 = None \<and> e2 = None \<and> e3 = None \<and> e4 = None
            \<and> (\<exists>sec3 sec4. x3 = Some sec3 \<and> index_map (Data sec3) ''secret_id'' = VString s
                 \<and> x4 = Some sec4 \<and> index_map (Data sec4) ''role_id'' = VString r))"
proof -
  note [simp] = CreateProject_def createPolicyState_eq writeProjectState_eq readSecretID_eq
    readRoleID_eq index_map_Some
  have 1: "e1 = Some err \<Longrightarrow> CreateProject v name w =
              (Failed err,
               w\<lparr>trace := trace w @
             [Call_PutPolicy (''argo-cloudops-projects-'' @ name) (defaultVaultReadonlyPolicyAWS name)],
           backend := s1\<rparr>)"
    using assms by simp
  have 2: "e1 = None \<and> e2 = Some err \<Longrightarrow> CreateProject v name w =
              (Failed err,
               w\<lparr>trace := trace w @
             [Call_PutPolicy (''argo-cloudops-projects-'' @ name) (defaultVaultReadonlyPolicyAWS name),
              Call_Write (''auth/approle/role/argo-cloudops-projects-'' @ name)
              [''secret_id_ttl'' \<mapsto> VString ''8776h'', ''token_max_ttl'' \<mapsto> VString ''10m'',
               ''token_no_default_policy'' \<mapsto> VString ''true'', ''token_num_uses'' \<mapsto> VInt 3,
               ''token_policies'' \<mapsto> VString (''argo-cloudops-projects-'' @ name)]],
           backend := s2\<rparr>)"
    using assms by simp
  have 3: "e1 = None \<and> e2 = None \<and> e3 = Some err \<Longrightarrow> CreateProject v name w =
              (Failed err,
               w\<lparr>trace := trace w @
             [Call_PutPolicy (''argo-cloudops-projects-'' @ name) (defaultVaultReadonlyPolicyAWS name),
              Call_Write (''auth/approle/role/argo-cloudops-projects-'' @ name)
              [''secret_id_ttl'' \<mapsto> VString ''8776h'', ''token_max_ttl'' \<mapsto> VString ''10m'',
               ''token_no_default_policy'' \<mapsto> VString ''true'', ''token_num_uses'' \<mapsto> VInt 3,
               ''token_policies'' \<mapsto> VString (''argo-cloudops-projects-'' @ name)],
              Call_Write (''auth/approle/role/argo-cloudops-projects-'' @ name @ ''/secret-id'')
              [''force'' \<mapsto> VBool True]],
           backend := s3\<rparr>)"
    using assms by simp
  have 4: "e1 = None \<and> e2 = None \<and> e3 = None
          \<and> x3 = Some sec3 \<and> Data sec3 ''secret_id'' = Some (VString sid)
          \<and> e4 = Some err \<Longrightarrow> CreateProject v name w =
              (Failed err,
               w\<lparr>trace := trace w @
             [Call_PutPolicy (''argo-cloudops-projects-'' @ name) (defaultVaultReadonlyPolicyAWS name),
              Call_Write (''auth/approle/role/argo-cloudops-projects-'' @ name)
              [''secret_id_ttl'' \<mapsto> VString ''8776h'', ''token_max_ttl'' \<mapsto> VString ''10m'',
               ''token_no_default_policy'' \<mapsto> VString ''true'', ''token_num_uses'' \<mapsto> VInt 3,
               ''token_policies'' \<mapsto> VString (''argo-cloudops-projects-'' @ name)],
              Call_Write (''auth/approle/role/argo-cloudops-projects-'' @ name @ ''/secret-id'')
              [''force'' \<mapsto> VBool True],
              Call_Read (''auth/approle/role/argo-cloudops-projects-'' @ name @ ''/role-id'')],
           backend := s4\<rparr>)"
    using assms by simp
  have 5: "e1 = None \<and> e2 = None \<and> e3 = None \<and> e4 = None
          \<and> x3 = Some sec3 \<and> Data sec3 ''secret_id'' = Some (VString sid)
          \<and> x4 = Some sec4 \<and> Data sec4 ''role_id'' = Some (VString rid) \<Longrightarrow>
            CreateProject v name w =
              (Ok (rid, sid),
               w\<lparr>trace := trace w @
             [Call_PutPolicy (''argo-cloudops-projects-'' @ name) (defaultVaultReadonlyPolicyAWS name),
              Call_Write (''auth/approle/role/argo-cloudops-projects-'' @ name)
              [''secret_id_ttl'' \<mapsto> VString ''8776h'', ''token_max_ttl'' \<mapsto> VString ''10m'',
               ''token_no_default_policy'' \<mapsto> VString ''true'', ''token_num_uses'' \<mapsto> VInt 3,
               ''token_policies'' \<mapsto> VString (''argo-cloudops-projects-'' @ name)],
              Call_Write (''auth/approle/role/argo-cloudops-projects-'' @ name @ ''/secret-id'')
              [''force'' \<mapsto> VBool True],
              Call_Read (''auth/approle/role/argo-cloudops-projects-'' @ name @ ''/role-id'')],
           backend := s4\<rparr>)"
    using assms by simp
  have 6: "e1 = None \<and> e2 = None \<and> e3 = None \<and> e4 = None
            \<and> (\<exists>sec3 sec4. x3 = Some sec3 \<and> index_map (Data sec3) ''secret_id'' = VString s
                 \<and> x4 = Some sec4 \<and> index_map (Data sec4) ''role_id'' = VString r)"
    if "fst (CreateProject v name w) = Ok (r, s)"
    using that unfolding CreateProject_outcome [OF assms]
    by (simp add: assert_string_Some split: option.splits)
  from 1 2 3 4 5 6 show ?thesis by blast
qed


lemmas scripted_defs = scripted_def next_response_def next_error_def init_world_def
  NewVaultProvider_def

theorem CreateProject_spec_witness:
  "CreateProject (NewVaultProvider scripted alice) ''p'' (init_world create_ok) =
     (Ok (''rid-1'', ''sid-1''),
      \<lparr>trace =
         [Call_PutPolicy ''argo-cloudops-projects-p'' (defaultVaultReadonlyPolicyAWS ''p''),
          Call_Write ''auth/approle/role/argo-cloudops-projects-p''
            [''secret_id_ttl'' \<mapsto> VString ''8776h'', ''token_max_ttl'' \<mapsto> VString ''10m'',
             ''token_no_default_policy'' \<mapsto> VString ''true'', ''token_num_uses'' \<mapsto> VInt 3,
             ''token_policies'' \<mapsto> VString ''argo-cloudops-projects-p''],
          Call_Write ''auth/approle/role/argo-cloudops-projects-p/secret-id''
            [''force'' \<mapsto> VBool True],
          Call_Read ''auth/approle/role/argo-cloudops-projects-p/role-id''],
       stdout = [], backend = ([], [])\<rparr>)"
proof -
  let ?v = "NewVaultProvider scripted alice"
  let ?sec3 = "\<lparr>Data = [''secret_id'' \<mapsto> VString ''sid-1''], Auth = None\<rparr>"
  let ?sec4 = "\<lparr>Data = [''role_id'' \<mapsto> VString ''rid-1''], Auth = None\<rparr>"
  have a: "isAdmin ?v"
    by (simp add: isAdmin_def NewVaultProvider_def alice_def)
  have p: "PutPolicy (vaultSysSvc ?v) (''argo-cloudops-projects-'' @ ''p'')
      (defaultVaultReadonlyPolicyAWS ''p'') (backend (init_world create_ok))
    = (None, ([(None, None), (Some ?sec3, None), (Some ?sec4, None)], []))"
    by (simp add: scripted_defs create_ok_def)
  have r: "Write (vaultLogicalSvc ?v) (''auth/approle/role/argo-cloudops-projects-'' @ ''p'')
      [''secret_id_ttl'' \<mapsto> VString ''8776h'', ''token_max_ttl'' \<mapsto> VString ''10m'',
       ''token_no_default_policy'' \<mapsto> VString ''true'', ''token_num_uses'' \<mapsto> VInt 3,
       ''token_policies'' \<mapsto> VString (''argo-cloudops-projects-'' @ ''p'')]
      ([(None, None), (Some ?sec3, None), (Some ?sec4, None)], [])
    = ((None, None), ([(Some ?sec3, None), (Some ?sec4, None)], []))"
    by (simp add: scripted_defs)
  have s: "Write (vaultLogicalSvc ?v)
      (''auth/approle/role/argo-cloudops-projects-'' @ ''p'' @ ''/secret-id'')
      [''force'' \<mapsto> VBool True] ([(Some ?sec3, None), (Some ?sec4, None)], [])
    = ((Some ?sec3, None), ([(Some ?sec4, None)], []))"
    by (simp add: scripted_defs)
  have i: "Read (vaultLogicalSvc ?v)
      (''auth/approle/role/argo-cloudops-projects-'' @ ''p'' @ ''/role-id'')
      ([(Some ?sec4, None)], [])
    = ((Some ?sec4, None), ([], []))"
    by (simp add: scripted_defs)
  from CreateProject_spec [OF a p r s i, of undefined ?sec3 "''sid-1''" ?sec4 "''rid-1''"
      undefined undefined]
  show ?thesis by (simp add: init_world_def)
qed

text \<open>
  The run in which every step succeeds: the write to \<open>secret-id\<close> comes third and the
  read of \<open>role-id\<close> fourth.
\<close>

theorem CreateProject_order:
  "trace (snd (CreateProject (NewVaultProvider scripted alice) ''p'' (init_world create_ok))) =
     [Call_PutPolicy ''argo-cloudops-projects-p'' (defaultVaultReadonlyPolicyAWS ''p''),
      Call_Write ''auth/approle/role/argo-cloudops-projects-p''
        [''secret_id_ttl'' \<mapsto> VString ''8776h'', ''token_max_ttl'' \<mapsto> VString ''10m'',
         ''token_no_default_policy'' \<mapsto> VString ''true'', ''token_num_uses'' \<mapsto> VInt 3,
         ''token_policies'' \<mapsto> VString ''argo-cloudops-projects-p''],
      Call_Write ''auth/approle/role/argo-cloudops-projects-p/secret-id''
        [''force'' \<mapsto> VBool True],
      Call_Read ''auth/approle/role/argo-cloudops-projects-p/role-id'']"
  by (simp add: CreateProject_def createPolicyState_def writeProjectState_def readSecretID_def
      readRoleID_def svc_defs path_defs scripted_defs create_ok_def isAdmin_def alice_def
      index_map_def Let_def)

section \<open>Nil responses\<close>

text \<open>
  Claim C10. When the backend answers a call with a nil secret and a nil error,
  \<open>GetToken\<close>, \<open>readRoleID\<close> and \<open>readSecretID\<close> panic with a nil pointer
  dereference, and so does \<open>CreateProject\<close> when it reaches either of the two; whereas
  \<open>GetProject\<close> returns \<open>ErrNotFound\<close>, \<open>GetTarget\<close> returns the error "target not
  found" and \<open>ListTargets\<close> returns an empty list.
\<close>

theorem nil_response_spec:
  "(\<not> isAdmin v
      \<and> Write (vaultLogicalSvc v) ''auth/approle/login''
          [''role_id'' \<mapsto> VString (roleID v), ''secret_id'' \<mapsto> VString (secretID v)] (backend w)
        = ((None, None), t1) \<longrightarrow>
      fst (GetToken v w) = Panicked NilPointerDereference)
   \<and> (Read (vaultLogicalSvc v)
          (''auth/approle/role/argo-cloudops-projects-'' @ name @ ''/role-id'') (backend w)
        = ((None, None), t2) \<longrightarrow>
      fst (readRoleID v name w) = Panicked NilPointerDereference)
   \<and> (Write (vaultLogicalSvc v)
          (''auth/approle/role/argo-cloudops-projects-'' @ name @ ''/secret-id'')
          [''force'' \<mapsto> VBool True] (backend w)
        = ((None, None), t3) \<longrightarrow>
      fst (readSecretID v name w) = Panicked NilPointerDereference)
   \<and> (isAdmin v
      \<and> PutPolicy (vaultSysSvc v) (''argo-cloudops-projects-'' @ name)
          (defaultVaultReadonlyPolicyAWS name) (backend w) = (None, s1)
      \<and> Write (vaultLogicalSvc v) (''auth/approle/role/argo-cloudops-projects-'' @ name)
          [''secret_id_ttl'' \<mapsto> VString ''8776h'', ''token_max_ttl'' \<mapsto> VString ''10m'',
           ''token_no_default_policy'' \<mapsto> VString ''true'', ''token_num_uses'' \<mapsto> VInt 3,
           ''token_policies'' \<mapsto> VString (''argo-cloudops-projects-'' @ name)] s1
        = ((x2, None), s2)
      \<and> Write (vaultLogicalSvc v)
          (''auth/approle/role/argo-cloudops-projects-'' @ name @ ''/secret-id'')
          [''force'' \<mapsto> VBool True] s2 = ((None, None), s3) \<longrightarrow>
      fst (CreateProject v name w) = Panicked NilPointerDereference)
   \<and> (isAdmin v
      \<and> PutPolicy (vaultSysSvc v) (''argo-cloudops-projects-'' @ name)
          (defaultVaultReadonlyPolicyAWS name) (backend w) = (None, s1)
      \<and> Write (vaultLogicalSvc v) (''auth/approle/role/argo-cloudops-projects-'' @ name)
          [''secret_id_ttl'' \<mapsto> VString ''8776h'', ''token_max_ttl'' \<mapsto> VString ''10m'',
           ''token_no_default_policy'' \<mapsto> VString ''true'', ''token_num_uses'' \<mapsto> VInt 3,
           ''token_policies'' \<mapsto> VString (''argo-cloudops-projects-'' @ name)] s1
        = ((x2, None), s2)
      \<and> Write (vaultLogicalSvc v)
          (''auth/approle/role/argo-cloudops-projects-'' @ name @ ''/secret-id'')
          [''force'' \<mapsto> VBool True] s2 = ((Some sec3, None), s3')
      \<and> Data sec3 ''secret_id'' = Some (VString sid)
      \<and> Read (vaultLogicalSvc v)
          (''auth/approle/role/argo-cloudops-projects-'' @ name @ ''/role-id'') s3'
        = ((None, None), s4) \<longrightarrow>
      fst (CreateProject v name w) = Panicked NilPointerDereference)
   \<and> (Read (vaultLogicalSvc v) (''auth/approle/role/argo-cloudops-projects-'' @ name) (backend w)
        = ((None, None), t4) \<longrightarrow>
      fst (GetProject v name w) = Failed ErrNotFound)
   \<and> (isAdmin v
      \<and> Read (vaultLogicalSvc v)
          (''aws/roles/argo-cloudops-projects-'' @ name @ ''-target-'' @ target) (backend w)
        = ((None, None), t5) \<longrightarrow>
      fst (GetTarget v name target w) = Failed (ErrorString ''target not found''))
   \<and> (isAdmin v
      \<and> List (vaultLogicalSvc v) ''aws/roles/'' (backend w) = ((None, None), t6) \<longrightarrow>
      fst (ListTargets v name w) = Ok (Slice []))"
proof -
  have tok: "fst (GetToken v w) = Panicked NilPointerDereference"
    if "\<not> isAdmin v
      \<and> Write (vaultLogicalSvc v) ''auth/approle/login''
          [''role_id'' \<mapsto> VString (roleID v), ''secret_id'' \<mapsto> VString (secretID v)] (backend w)
        = ((None, None), t1)"
    using that by (simp add: GetToken_def svc_Write_def Let_def)
  have rid: "fst (readRoleID v name w) = Panicked NilPointerDereference"
    if "Read (vaultLogicalSvc v)
          (''auth/approle/role/argo-cloudops-projects-'' @ name @ ''/role-id'') (backend w)
        = ((None, None), t2)"
    using that by (simp add: readRoleID_eq)
  have sid: "fst (readSecretID v name w) = Panicked NilPointerDereference"
    if "Write (vaultLogicalSvc v)
          (''auth/approle/role/argo-cloudops-projects-'' @ name @ ''/secret-id'')
          [''force'' \<mapsto> VBool True] (backend w)
        = ((None, None), t3)"
    using that by (simp add: readSecretID_eq)
  have cp1: "fst (CreateProject v name w) = Panicked NilPointerDereference"
    if "isAdmin v
      \<and> PutPolicy (vaultSysSvc v) (''argo-cloudops-projects-'' @ name)
          (defaultVaultReadonlyPolicyAWS name) (backend w) = (None, s1)
      \<and> Write (vaultLogicalSvc v) (''auth/approle/role/argo-cloudops-projects-'' @ name)
          [''secret_id_ttl'' \<mapsto> VString ''8776h'', ''token_max_ttl'' \<mapsto> VString ''10m'',
           ''token_no_default_policy'' \<mapsto> VString ''true'', ''token_num_uses'' \<mapsto> VInt 3,
           ''token_policies'' \<mapsto> VString (''argo-cloudops-projects-'' @ name)] s1
        = ((x2, None), s2)
      \<and> Write (vaultLogicalSvc v)
          (''auth/approle/role/argo-cloudops-projects-'' @ name @ ''/secret-id'')
          [''force'' \<mapsto> VBool True] s2 = ((None, None), s3)"
    using that
    by (simp add: CreateProject_def createPolicyState_eq writeProjectState_eq readSecretID_eq)
  have cp2: "fst (CreateProject v name w) = Panicked NilPointerDereference"
    if "isAdmin v
      \<and> PutPolicy (vaultSysSvc v) (''argo-cloudops-projects-'' @ name)
          (defaultVaultReadonlyPolicyAWS name) (backend w) = (None, s1)
      \<and> Write (vaultLogicalSvc v) (''auth/approle/role/argo-cloudops-projects-'' @ name)
          [''secret_id_ttl'' \<mapsto> VString ''8776h'', ''token_max_ttl'' \<mapsto> VString ''10m'',
           ''token_no_default_policy'' \<mapsto> VString ''true'', ''token_num_uses'' \<mapsto> VInt 3,
           ''token_policies'' \<mapsto> VString (''argo-cloudops-projects-'' @ name)] s1
        = ((x2, None), s2)
      \<and> Write (vaultLogicalSvc v)
          (''auth/approle/role/argo-cloudops-projects-'' @ name @ ''/secret-id'')
          [''force'' \<mapsto> VBool True] s2 = ((Some sec3, None), s3')
      \<and> Data sec3 ''secret_id'' = Some (VString sid)
      \<and> Read (vaultLogicalSvc v)
          (''auth/approle/role/argo-cloudops-projects-'' @ name @ ''/role-id'') s3'
        = ((None, None), s4)"
    using that
    by (simp add: CreateProject_def createPolicyState_eq writeProjectState_eq readSecretID_eq
        readRoleID_eq index_map_Some)
  have gp: "fst (GetProject v name w) = Failed ErrNotFound"
    if "Read (vaultLogicalSvc v) (''auth/approle/role/argo-cloudops-projects-'' @ name) (backend w)
        = ((None, None), t4)"
    using that by (simp add: GetProject_def svc_Read_def path_defs)
  have gt: "fst (GetTarget v name target w) = Failed (ErrorString ''target not found'')"
    if "isAdmin v
      \<and> Read (vaultLogicalSvc v)
          (''aws/roles/argo-cloudops-projects-'' @ name @ ''-target-'' @ target) (backend w)
        = ((None, None), t5)"
    using that by (simp add: GetTarget_def svc_Read_def)
  have lt: "fst (ListTargets v name w) = Ok (Slice [])"
    if "isAdmin v
      \<and> List (vaultLogicalSvc v) ''aws/roles/'' (backend w) = ((None, None), t6)"
    using that by (simp add: ListTargets_def svc_List_def)
  from tok rid sid cp1 cp2 gp gt lt show ?thesis by blast
qed

theorem nil_response_spec_witness:
  "fst (GetToken (NewVaultProvider scripted tenant) (init_world all_nil))
     = Panicked NilPointerDereference
   \<and> fst (readRoleID (NewVaultProvider scripted alice) ''p'' (init_world all_nil))
     = Panicked NilPointerDereference
   \<and> fst (readSecretID (NewVaultProvider scripted alice) ''p'' (init_world all_nil))
     = Panicked NilPointerDereference
   \<and> fst (CreateProject (NewVaultProvider scripted alice) ''p'' (init_world all_nil))
     = Panicked NilPointerDereference
   \<and> fst (CreateProject (NewVaultProvider scripted alice) ''p'' (init_world role_id_nil))
     = Panicked NilPointerDereference
   \<and> fst (GetProject (NewVaultProvider scripted alice) ''p'' (init_world all_nil))
     = Failed ErrNotFound
   \<and> fst (GetTarget (NewVaultProvider scripted alice) ''p'' ''t'' (init_world all_nil))
     = Failed (ErrorString ''target not found'')
   \<and> fst (ListTargets (NewVaultProvider scripted alice) ''p'' (init_world all_nil))
     = Ok (Slice [])"
proof -
  have adm: "isAdmin (NewVaultProvider scripted alice)"
    "\<not> isAdmin (NewVaultProvider scripted tenant)"
    by (simp_all add: isAdmin_def NewVaultProvider_def alice_def tenant_def)
  have "fst (GetToken (NewVaultProvider scripted tenant) (init_world all_nil))
     = Panicked NilPointerDereference"
    using nil_response_spec [where v = "NewVaultProvider scripted tenant"
        and w = "init_world all_nil" and ?t1.0 = "([], [])"] adm
    by (simp add: scripted_defs all_nil_def)
  moreover
  have "fst (readRoleID (NewVaultProvider scripted alice) ''p'' (init_world all_nil))
     = Panicked NilPointerDereference
   \<and> fst (readSecretID (NewVaultProvider scripted alice) ''p'' (init_world all_nil))
     = Panicked NilPointerDereference
   \<and> fst (CreateProject (NewVaultProvider scripted alice) ''p'' (init_world all_nil))
     = Panicked NilPointerDereference
   \<and> fst (GetProject (NewVaultProvider scripted alice) ''p'' (init_world all_nil))
     = Failed ErrNotFound
   \<and> fst (GetTarget (NewVaultProvider scripted alice) ''p'' ''t'' (init_world all_nil))
     = Failed (ErrorString ''target not found'')
   \<and> fst (ListTargets (NewVaultProvider scripted alice) ''p'' (init_world all_nil))
     = Ok (Slice [])"
    using nil_response_spec [where v = "NewVaultProvider scripted alice"
        and w = "init_world all_nil" and name = "''p''" and target = "''t''"
        and ?t2.0 = "([], [])" and ?t3.0 = "([], [])" and ?t4.0 = "([], [])"
        and ?t5.0 = "([], [])" and ?t6.0 = "([], [])"
        and ?s1.0 = "([], [])" and ?s2.0 = "([], [])" and ?s3.0 = "([], [])" and ?x2.0 = None] adm
    by (simp add: scripted_defs all_nil_def)
  moreover
  have "fst (CreateProject (NewVaultProvider scripted alice) ''p'' (init_world role_id_nil))
     = Panicked NilPointerDereference"
    using nil_response_spec [where v = "NewVaultProvider scripted alice"
        and w = "init_world role_id_nil" and name = "''p''"
        and ?s1.0 = "([(None, None),
              (Some \<lparr>Data = [''secret_id'' \<mapsto> VString ''sid-1''], Auth = None\<rparr>, None),
              (None, None)], [])"
        and ?x2.0 = None
        and ?s2.0 = "([(Some \<lparr>Data = [''secret_id'' \<mapsto> VString ''sid-1''], Auth = None\<rparr>, None),
              (None, None)], [])"
        and ?sec3.0 = "\<lparr>Data = [''secret_id'' \<mapsto> VString ''sid-1''], Auth = None\<rparr>"
        and sid = "''sid-1''"
        and s3' = "([(None, None)], [])" and ?s4.0 = "([], [])"] adm
    by (simp add: scripted_defs role_id_nil_def)
  ultimately show ?thesis by blast
qed

section \<open>Listing targets\<close>

lemma HasPrefix_iff: "HasPrefix s p = (\<exists>t. s = p @ t)"
proof
  assume "HasPrefix s p"
  then have "s = p @ drop (length p) s"
    by (metis HasPrefix_def append_take_drop_id)
  then show "\<exists>t. s = p @ t" ..
next
  assume "\<exists>t. s = p @ t"
  then show "HasPrefix s p" by (auto simp: HasPrefix_def)
qed

lemma Index_HasPrefix: "HasPrefix s p \<Longrightarrow> Index s p = Some 0"
  by (cases s) (auto simp: HasPrefix_def)

lemma Replace_prefix: "HasPrefix s p \<Longrightarrow> Replace s p [] 1 = drop (length p) s"
  by (simp add: Index_HasPrefix)

lemma filter_targets_strings:
  "filter_targets project (map VString ks) (Slice acc) =
     Some (Slice (acc @ map (drop (length (''argo-cloudops-projects-'' @ project @ ''-target-'')))
       (filter (\<lambda>k. HasPrefix k (''argo-cloudops-projects-'' @ project @ ''-target-'')) ks)))"
proof (induction ks arbitrary: acc)
  case Nil
  show ?case by simp
next
  case (Cons k ks)
  show ?case
  proof (cases "HasPrefix k (''argo-cloudops-projects-'' @ project @ ''-target-'')")
    case True
    from Replace_prefix [OF True]
    have "Replace k (''argo-cloudops-projects-'' @ project @ ''-target-'') [] 1 =
        drop (length (''argo-cloudops-projects-'' @ project @ ''-target-'')) k" .
    with True Cons.IH [of "acc @ [drop (length (''argo-cloudops-projects-'' @ project @ ''-target-'')) k]"]
    show ?thesis by (simp add: Let_def)
  next
    case False
    with Cons.IH [of acc] show ?thesis by (simp add: Let_def)
  qed
qed

text \<open>
  Claim C8. On an admin provider whose backend answers the listing of \<open>aws/roles/\<close>
  without error, \<open>ListTargets\<close> returns, in the backend's order, exactly the listed keys
  that start with \<open>argo-cloudops-projects-<project>-target-\<close>, each with that prefix
  removed; a nil answer, an empty key list and a key list without a match all give an
  allocated empty slice. No call of \<open>ListTargets\<close> succeeds with a nil slice.
\<close>

theorem ListTargets_spec:
  "(isAdmin v \<and> List (vaultLogicalSvc v) ''aws/roles/'' (backend w) = ((None, None), s') \<longrightarrow>
      ListTargets v project w =
        (Ok (Slice []), w\<lparr>trace := trace w @ [Call_List ''aws/roles/''], backend := s'\<rparr>))
   \<and> (isAdmin v \<and> List (vaultLogicalSvc v) ''aws/roles/'' (backend w) = ((Some sec, None), s'')
        \<and> Data sec ''keys'' = Some (VList (map VString ks)) \<longrightarrow>
      ListTargets v project w =
        (Ok (Slice (map (drop (length (''argo-cloudops-projects-'' @ project @ ''-target-'')))
               (filter (\<lambda>k. HasPrefix k (''argo-cloudops-projects-'' @ project @ ''-target-'')) ks))),
         w\<lparr>trace := trace w @ [Call_List ''aws/roles/''], backend := s''\<rparr>))
   \<and> (HasPrefix k (''argo-cloudops-projects-'' @ project @ ''-target-'')
        = (\<exists>t. k = ''argo-cloudops-projects-'' @ project @ ''-target-'' @ t))
   \<and> fst (ListTargets v project w) \<noteq> Ok NilSlice"
proof -
  have nil: "ListTargets v project w =
        (Ok (Slice []), w\<lparr>trace := trace w @ [Call_List ''aws/roles/''], backend := s'\<rparr>)"
    if "isAdmin v \<and> List (vaultLogicalSvc v) ''aws/roles/'' (backend w) = ((None, None), s')"
    using that by (simp add: ListTargets_def svc_List_def)
  have some: "ListTargets v project w =
        (Ok (Slice (map (drop (length (''argo-cloudops-projects-'' @ project @ ''-target-'')))
               (filter (\<lambda>k. HasPrefix k (''argo-cloudops-projects-'' @ project @ ''-target-'')) ks))),
         w\<lparr>trace := trace w @ [Call_List ''aws/roles/''], backend := s''\<rparr>)"
    if "isAdmin v \<and> List (vaultLogicalSvc v) ''aws/roles/'' (backend w) = ((Some sec, None), s'')
        \<and> Data sec ''keys'' = Some (VList (map VString ks))"
    using that filter_targets_strings [of project ks "[]"]
    by (simp add: ListTargets_def svc_List_def index_map_Some)
  have pre: "HasPrefix k (''argo-cloudops-projects-'' @ project @ ''-target-'')
        = (\<exists>t. k = ''argo-cloudops-projects-'' @ project @ ''-target-'' @ t)"
    by (simp add: HasPrefix_iff)
  have slice: "filter_targets project xs (Slice acc) \<noteq> Some NilSlice" for xs acc
    by (induction xs arbitrary: acc) (auto simp: Let_def split: option.splits)
  have nonnil: "fst (ListTargets v project w) \<noteq> Ok NilSlice"
    using slice
    by (auto simp: ListTargets_def split: prod.splits option.splits)
  from nil some pre nonnil show ?thesis by blast
qed


theorem ListTargets_spec_witness:
  "ListTargets (NewVaultProvider scripted alice) ''proj1'' (init_world listing) =
     (Ok (Slice [''a'', ''b'']),
      \<lparr>trace = [Call_List ''aws/roles/''], stdout = [], backend = ([], [])\<rparr>)
   \<and> ListTargets (NewVaultProvider scripted alice) ''proj3'' (init_world listing) =
     (Ok (Slice []),
      \<lparr>trace = [Call_List ''aws/roles/''], stdout = [], backend = ([], [])\<rparr>)
   \<and> ListTargets (NewVaultProvider scripted alice) ''proj1'' (init_world all_nil) =
     (Ok (Slice []),
      \<lparr>trace = [Call_List ''aws/roles/''], stdout = [], backend = ([], [])\<rparr>)"
proof -
  let ?sec = "\<lparr>Data = [''keys'' \<mapsto> VList (map VString
                [''argo-cloudops-projects-proj1-target-a'',
                 ''argo-cloudops-projects-proj1-target-b'',
                 ''argo-cloudops-projects-proj2-target-c''])],
              Auth = None\<rparr>"
  have adm: "isAdmin (NewVaultProvider scripted alice)"
    by (simp add: isAdmin_def NewVaultProvider_def alice_def)
  have l: "List (vaultLogicalSvc (NewVaultProvider scripted alice)) ''aws/roles/''
      (backend (init_world listing)) = ((Some ?sec, None), ([], []))"
    by (simp add: scripted_defs listing_def)
  have n: "List (vaultLogicalSvc (NewVaultProvider scripted alice)) ''aws/roles/''
      (backend (init_world all_nil)) = ((None, None), ([], []))"
    by (simp add: scripted_defs all_nil_def)
  have k: "Data ?sec ''keys'' = Some (VList (map VString
                [''argo-cloudops-projects-proj1-target-a'',
                 ''argo-cloudops-projects-proj1-target-b'',
                 ''argo-cloudops-projects-proj2-target-c'']))"
    by simp
  have 1: "ListTargets (NewVaultProvider scripted alice) ''proj1'' (init_world listing) =
     (Ok (Slice [''a'', ''b'']),
      \<lparr>trace = [Call_List ''aws/roles/''], stdout = [], backend = ([], [])\<rparr>)"
    using ListTargets_spec [where v = "NewVaultProvider scripted alice"
        and w = "init_world listing" and project = "''proj1''" and sec = ?sec
        and s'' = "([], [])"
        and ks = "[''argo-cloudops-projects-proj1-target-a'',
                 ''argo-cloudops-projects-proj1-target-b'',
                 ''argo-cloudops-projects-proj2-target-c'']", THEN conjunct2, THEN conjunct1]
      adm l k
    by (simp add: HasPrefix_def init_world_def)
  have 2: "ListTargets (NewVaultProvider scripted alice) ''proj3'' (init_world listing) =
     (Ok (Slice []),
      \<lparr>trace = [Call_List ''aws/roles/''], stdout = [], backend = ([], [])\<rparr>)"
    using ListTargets_spec [where v = "NewVaultProvider scripted alice"
        and w = "init_world listing" and project = "''proj3''" and sec = ?sec
        and s'' = "([], [])"
        and ks = "[''argo-cloudops-projects-proj1-target-a'',
                 ''argo-cloudops-projects-proj1-target-b'',
                 ''argo-cloudops-projects-proj2-target-c'']", THEN conjunct2, THEN conjunct1]
      adm l k
    by (simp add: HasPrefix_def init_world_def)
  have 3: "ListTargets (NewVaultProvider scripted alice) ''proj1'' (init_world all_nil) =
     (Ok (Slice []),
      \<lparr>trace = [Call_List ''aws/roles/''], stdout = [], backend = ([], [])\<rparr>)"
    using ListTargets_spec [where v = "NewVaultProvider scripted alice"
        and w = "init_world all_nil" and project = "''proj1''" and s' = "([], [])",
        THEN conjunct1] adm n
    by (simp add: init_world_def)
  from 1 2 3 show ?thesis by blast
qed

section \<open>Decoding a target\<close>

lemma assert_string_None: "(assert_string x = None) = (\<forall>s. x \<noteq> VString s)"
  by (cases x) auto

lemma assert_list_None: "(assert_list x = None) = (\<forall>xs. x \<noteq> VList xs)"
  by (cases x) auto

lemma collect_policies_strings:
  "collect_policies (map VString ps) acc =
     Some (if ps = [] then acc else Slice (elems acc @ ps))"
  by (induction ps arbitrary: acc) auto

lemma collect_policies_Some:
  "collect_policies xs acc = Some r \<Longrightarrow> \<exists>ps. xs = map VString ps"
proof (induction xs arbitrary: acc)
  case Nil
  then show ?case by simp
next
  case (Cons x xs)
  from Cons.prems obtain p where p: "x = VString p"
    by (auto simp: assert_string_Some split: option.splits)
  with Cons.prems have "collect_policies xs (append_slice acc p) = Some r" by simp
  from Cons.IH [OF this] obtain ps where "xs = map VString ps" ..
  with p have "x # xs = map VString (p # ps)" by simp
  then show ?case ..
qed


lemma GetTarget_read:
  assumes "isAdmin v"
    and "Read (vaultLogicalSvc v)
           (''aws/roles/argo-cloudops-projects-'' @ project @ ''-target-'' @ target) (backend w)
         = ((Some sec, None), s')"
  shows "fst (GetTarget v project target w) =
     (case assert_list (index_map (Data sec) ''role_arns'') of
        None \<Rightarrow> Panicked InterfaceConversion
      | Some [] \<Rightarrow> Panicked IndexOutOfRange
      | Some (first # rest) \<Rightarrow>
     (case assert_string first of
        None \<Rightarrow> Panicked InterfaceConversion
      | Some roleArn \<Rightarrow>
     (case assert_list (index_map (Data sec) ''policy_arns'') of
        None \<Rightarrow> Panicked InterfaceConversion
      | Some policyArns \<Rightarrow>
     (case assert_string (index_map (Data sec) ''credential_type'') of
        None \<Rightarrow> Panicked InterfaceConversion
      | Some credentialType \<Rightarrow>
     (case collect_policies policyArns NilSlice of
        None \<Rightarrow> Panicked InterfaceConversion
      | Some policies \<Rightarrow>
          Ok \<lparr>CredentialType = credentialType, PolicyArns = policies,
              RoleArn = roleArn\<rparr>)))))"
    and "snd (GetTarget v project target w) =
      w\<lparr>trace := trace w @
          [Call_Read (''aws/roles/argo-cloudops-projects-'' @ project @ ''-target-'' @ target)],
        backend := s'\<rparr>"
  using assms
  by (simp_all add: GetTarget_def svc_Read_def split: option.split list.split)

text \<open>
  Claim C7, amended. When the backend answers the read of a target with a secret,
  \<open>GetTarget\<close> panics, after the one read, in each of these cases: \<open>role_arns\<close> is
  missing or not a list (interface conversion), is an empty list (index out of range),
  or has a first element that is not a string; \<open>policy_arns\<close> is missing or not a list
  of strings; \<open>credential_type\<close> is missing or not a string. It then returns neither an
  error nor a TargetProperties. When the first element of \<open>role_arns\<close> is a string,
  \<open>policy_arns\<close> a list of strings and \<open>credential_type\<close> a string, it returns them,
  whatever follows the first element of \<open>role_arns\<close>.
\<close>

theorem GetTarget_decode_spec:
  assumes "isAdmin v"
    and "Read (vaultLogicalSvc v)
           (''aws/roles/argo-cloudops-projects-'' @ project @ ''-target-'' @ target) (backend w)
         = ((Some sec, None), s')"
  shows "((\<forall>xs. index_map (Data sec) ''role_arns'' \<noteq> VList xs) \<longrightarrow>
            fst (GetTarget v project target w) = Panicked InterfaceConversion)
     \<and> (index_map (Data sec) ''role_arns'' = VList [] \<longrightarrow>
            fst (GetTarget v project target w) = Panicked IndexOutOfRange)
     \<and> (index_map (Data sec) ''role_arns'' = VList (first # rest) \<and> (\<forall>s. first \<noteq> VString s) \<longrightarrow>
            fst (GetTarget v project target w) = Panicked InterfaceConversion)
     \<and> (index_map (Data sec) ''role_arns'' = VList (VString roleArn # rest)
          \<and> (\<forall>ps. index_map (Data sec) ''policy_arns'' \<noteq> VList (map VString ps)) \<longrightarrow>
            fst (GetTarget v project target w) = Panicked InterfaceConversion)
     \<and> (index_map (Data sec) ''role_arns'' = VList (VString roleArn # rest)
          \<and> (\<forall>s. index_map (Data sec) ''credential_type'' \<noteq> VString s) \<longrightarrow>
            fst (GetTarget v project target w) = Panicked InterfaceConversion)
     \<and> (index_map (Data sec) ''role_arns'' = VList (VString roleArn # rest)
          \<and> index_map (Data sec) ''policy_arns'' = VList (map VString ps)
          \<and> index_map (Data sec) ''credential_type'' = VString credentialType \<longrightarrow>
            fst (GetTarget v project target w) =
              Ok \<lparr>CredentialType = credentialType,
                  PolicyArns = (if ps = [] then NilSlice else Slice ps),
                  RoleArn = roleArn\<rparr>)
     \<and> snd (GetTarget v project target w) =
          w\<lparr>trace := trace w @
              [Call_Read (''aws/roles/argo-cloudops-projects-'' @ project @ ''-target-'' @ target)],
            backend := s'\<rparr>"
proof -
  note rd = GetTarget_read [OF assms]
  have 1: "fst (GetTarget v project target w) = Panicked InterfaceConversion"
    if "\<forall>xs. index_map (Data sec) ''role_arns'' \<noteq> VList xs"
    using that by (simp add: rd(1) assert_list_None [symmetric])
  have 2: "fst (GetTarget v project target w) = Panicked IndexOutOfRange"
    if "index_map (Data sec) ''role_arns'' = VList []"
    using that by (simp add: rd(1))
  have 3: "fst (GetTarget v project target w) = Panicked InterfaceConversion"
    if "index_map (Data sec) ''role_arns'' = VList (first # rest) \<and> (\<forall>s. first \<noteq> VString s)"
    using that by (simp add: rd(1) assert_string_None [symmetric])
  have 4: "fst (GetTarget v project target w) = Panicked InterfaceConversion"
    if h: "index_map (Data sec) ''role_arns'' = VList (VString roleArn # rest)
          \<and> (\<forall>ps. index_map (Data sec) ''policy_arns'' \<noteq> VList (map VString ps))"
  proof (cases "assert_list (index_map (Data sec) ''policy_arns'')")
    case None
    with h show ?thesis by (simp add: rd(1))
  next
    case (Some xs)
    then have xs: "index_map (Data sec) ''policy_arns'' = VList xs"
      by (simp add: assert_list_Some)
    have "collect_policies xs NilSlice = None"
    proof (cases "collect_policies xs NilSlice")
      case None
      then show ?thesis .
    next
      case (Some r)
      from collect_policies_Some [OF this] xs h show ?thesis by blast
    qed
    with h Some show ?thesis by (simp add: rd(1) split: option.split)
  qed
  have 5: "fst (GetTarget v project target w) = Panicked InterfaceConversion"
    if "index_map (Data sec) ''role_arns'' = VList (VString roleArn # rest)
          \<and> (\<forall>s. index_map (Data sec) ''credential_type'' \<noteq> VString s)"
    using that by (simp add: rd(1) assert_string_None [symmetric] split: option.split)
  have 6: "fst (GetTarget v project target w) =
              Ok \<lparr>CredentialType = credentialType,
                  PolicyArns = (if ps = [] then NilSlice else Slice ps),
                  RoleArn = roleArn\<rparr>"
    if "index_map (Data sec) ''role_arns'' = VList (VString roleArn # rest)
          \<and> index_map (Data sec) ''policy_arns'' = VList (map VString ps)
          \<and> index_map (Data sec) ''credential_type'' = VString credentialType"
    using that by (simp add: rd(1) collect_policies_strings)
  from 1 2 3 4 5 6 rd(2) show ?thesis by blast
qed


theorem GetTarget_decode_spec_witness:
  "fst (GetTarget (NewVaultProvider scripted alice) ''p'' ''t'' (init_world no_role_arns))
     = Panicked IndexOutOfRange
   \<and> fst (GetTarget (NewVaultProvider scripted alice) ''p'' ''t'' (init_world mixed_role_arns))
     = Ok \<lparr>CredentialType = ''assumed_role'', PolicyArns = Slice [''arn:policy''],
           RoleArn = ''arn:role''\<rparr>"
proof -
  let ?v = "NewVaultProvider scripted alice"
  let ?sec1 = "\<lparr>Data = [''role_arns'' \<mapsto> VList [], ''policy_arns'' \<mapsto> VList [],
                      ''credential_type'' \<mapsto> VString ''assumed_role''],
              Auth = None\<rparr>"
  let ?sec2 = "\<lparr>Data = [''role_arns'' \<mapsto> VList [VString ''arn:role'', VInt 5],
                      ''policy_arns'' \<mapsto> VList [VString ''arn:policy''],
                      ''credential_type'' \<mapsto> VString ''assumed_role''],
              Auth = None\<rparr>"
  have adm: "isAdmin ?v"
    by (simp add: isAdmin_def NewVaultProvider_def alice_def)
  have r1: "Read (vaultLogicalSvc ?v)
      (''aws/roles/argo-cloudops-projects-'' @ ''p'' @ ''-target-'' @ ''t'')
      (backend (init_world no_role_arns)) = ((Some ?sec1, None), ([], []))"
    by (simp add: scripted_defs no_role_arns_def)
  have r2: "Read (vaultLogicalSvc ?v)
      (''aws/roles/argo-cloudops-projects-'' @ ''p'' @ ''-target-'' @ ''t'')
      (backend (init_world mixed_role_arns)) = ((Some ?sec2, None), ([], []))"
    by (simp add: scripted_defs mixed_role_arns_def)
  have 1: "fst (GetTarget ?v ''p'' ''t'' (init_world no_role_arns)) = Panicked IndexOutOfRange"
    using GetTarget_decode_spec [OF adm r1, THEN conjunct2, THEN conjunct1]
    by (simp add: index_map_def)
  have 2: "fst (GetTarget ?v ''p'' ''t'' (init_world mixed_role_arns))
     = Ok \<lparr>CredentialType = ''assumed_role'', PolicyArns = Slice [''arn:policy''],
           RoleArn = ''arn:role''\<rparr>"
    using GetTarget_decode_spec [OF adm r2, where roleArn = "''arn:role''" and rest = "[VInt 5]"
        and ps = "[''arn:policy'']" and credentialType = "''assumed_role''"]
    by (simp add: index_map_def)
  from 1 2 show ?thesis by blast
qed

text \<open>A secret without any of the fields: the outcome is a panic, not an error.\<close>

theorem GetTarget_panics:
  "GetTarget (NewVaultProvider scripted alice) ''p'' ''t'' (init_world no_fields) =
     (Panicked InterfaceConversion,
      \<lparr>trace = [Call_Read ''aws/roles/argo-cloudops-projects-p-target-t''], stdout = [],
       backend = ([], [])\<rparr>)"
  by (simp add: GetTarget_def svc_Read_def scripted_defs no_fields_def isAdmin_def alice_def
      index_map_def)

section \<open>Writing a target and reading it back\<close>

lemma CreateTarget_eq:
  assumes "isAdmin v"
    and "Write (vaultLogicalSvc v)
           (''aws/roles/argo-cloudops-projects-'' @ project @ ''-target-'' @ Name ctr)
           [''role_arns'' \<mapsto> VString (RoleArn (Properties ctr)),
            ''credential_type'' \<mapsto> VString (CredentialType (Properties ctr)),
            ''policy_arns'' \<mapsto> VStrings (PolicyArns (Properties ctr))] (backend w)
         = ((x, e), s1)"
  shows "CreateTarget v project ctr w =
       (e, w\<lparr>trace := trace w @
              [Call_Write (''aws/roles/argo-cloudops-projects-'' @ project @ ''-target-'' @ Name ctr)
                 [''role_arns'' \<mapsto> VString (RoleArn (Properties ctr)),
                  ''credential_type'' \<mapsto> VString (CredentialType (Properties ctr)),
                  ''policy_arns'' \<mapsto> VStrings (PolicyArns (Properties ctr))]],
            backend := s1\<rparr>)"
  using assms by (simp add: CreateTarget_def svc_Write_def vaultProjectPrefix_def Let_def)

text \<open>
  Claim C6, amended. On an admin provider, when the backend accepts the write of
  \<open>CreateTarget\<close> and then answers the read at the same path with the written data in
  listed form (\<open>role_arns\<close> a one-element list holding the written string,
  \<open>policy_arns\<close> a list of the written strings as dynamic values, \<open>credential_type\<close>
  as written), \<open>CreateTarget\<close> followed by \<open>GetTarget\<close> for the request's name
  succeeds with the written \<open>CredentialType\<close>, the written \<open>RoleArn\<close> and the written
  \<open>PolicyArns\<close> elements in order, as a nil slice when there are none.
\<close>

theorem target_roundtrip:
  assumes "isAdmin v"
    and "Write (vaultLogicalSvc v)
           (''aws/roles/argo-cloudops-projects-'' @ project @ ''-target-'' @ Name ctr)
           [''role_arns'' \<mapsto> VString (RoleArn (Properties ctr)),
            ''credential_type'' \<mapsto> VString (CredentialType (Properties ctr)),
            ''policy_arns'' \<mapsto> VStrings (PolicyArns (Properties ctr))] (backend w)
         = ((x, None), s1)"
    and "Read (vaultLogicalSvc v)
           (''aws/roles/argo-cloudops-projects-'' @ project @ ''-target-'' @ Name ctr) s1
         = ((Some sec, None), s2)"
    and "Data sec = listed_form
           [''role_arns'' \<mapsto> VString (RoleArn (Properties ctr)),
            ''credential_type'' \<mapsto> VString (CredentialType (Properties ctr)),
            ''policy_arns'' \<mapsto> VStrings (PolicyArns (Properties ctr))]"
  shows "fst (CreateTarget v project ctr w) = None
     \<and> GetTarget v project (Name ctr) (snd (CreateTarget v project ctr w)) =
         (Ok \<lparr>CredentialType = CredentialType (Properties ctr),
              PolicyArns = (if elems (PolicyArns (Properties ctr)) = [] then NilSlice
                            else Slice (elems (PolicyArns (Properties ctr)))),
              RoleArn = RoleArn (Properties ctr)\<rparr>,
          w\<lparr>trace := trace w @
              [Call_Write (''aws/roles/argo-cloudops-projects-'' @ project @ ''-target-'' @ Name ctr)
                 [''role_arns'' \<mapsto> VString (RoleArn (Properties ctr)),
                  ''credential_type'' \<mapsto> VString (CredentialType (Properties ctr)),
                  ''policy_arns'' \<mapsto> VStrings (PolicyArns (Properties ctr))],
               Call_Read (''aws/roles/argo-cloudops-projects-'' @ project @ ''-target-'' @ Name ctr)],
            backend := s2\<rparr>)"
proof -
  note ct = CreateTarget_eq [OF assms(1,2)]
  let ?w1 = "snd (CreateTarget v project ctr w)"
  have rd: "Read (vaultLogicalSvc v)
      (''aws/roles/argo-cloudops-projects-'' @ project @ ''-target-'' @ Name ctr) (backend ?w1)
    = ((Some sec, None), s2)"
    using assms(3) by (simp add: ct)
  have f: "index_map (Data sec) ''role_arns'' = VList (VString (RoleArn (Properties ctr)) # [])"
    "index_map (Data sec) ''policy_arns'' = VList (map VString (elems (PolicyArns (Properties ctr))))"
    "index_map (Data sec) ''credential_type'' = VString (CredentialType (Properties ctr))"
    by (simp_all add: assms(4) listed_form_def index_map_def)
  note dec = GetTarget_read [OF assms(1) rd]
  have "fst (GetTarget v project (Name ctr) ?w1) =
      Ok \<lparr>CredentialType = CredentialType (Properties ctr),
              PolicyArns = (if elems (PolicyArns (Properties ctr)) = [] then NilSlice
                            else Slice (elems (PolicyArns (Properties ctr)))),
              RoleArn = RoleArn (Properties ctr)\<rparr>"
    by (simp add: dec(1) f collect_policies_strings)
  moreover have "snd (GetTarget v project (Name ctr) ?w1) =
      w\<lparr>trace := trace w @
              [Call_Write (''aws/roles/argo-cloudops-projects-'' @ project @ ''-target-'' @ Name ctr)
                 [''role_arns'' \<mapsto> VString (RoleArn (Properties ctr)),
                  ''credential_type'' \<mapsto> VString (CredentialType (Properties ctr)),
                  ''policy_arns'' \<mapsto> VStrings (PolicyArns (Properties ctr))],
               Call_Read (''aws/roles/argo-cloudops-projects-'' @ project @ ''-target-'' @ Name ctr)],
            backend := s2\<rparr>"
    unfolding dec(2) by (simp add: ct)
  moreover have "fst (CreateTarget v project ctr w) = None"
    by (simp add: ct)
  ultimately show ?thesis by (simp add: prod_eq_iff)
qed

theorem target_roundtrip_witness:
  "fst (CreateTarget (NewVaultProvider (store_client listed_form) alice) ''p'' example_request
          (init_world [])) = None
   \<and> fst (GetTarget (NewVaultProvider (store_client listed_form) alice) ''p'' ''t''
        (snd (CreateTarget (NewVaultProvider (store_client listed_form) alice) ''p''
                example_request (init_world []))))
     = Ok (Properties example_request)"
proof -
  let ?v = "NewVaultProvider (store_client listed_form) alice"
  let ?opts = "[''role_arns'' \<mapsto> VString (RoleArn (Properties example_request)),
            ''credential_type'' \<mapsto> VString (CredentialType (Properties example_request)),
            ''policy_arns'' \<mapsto> VStrings (PolicyArns (Properties example_request))]"
  let ?path = "''aws/roles/argo-cloudops-projects-'' @ ''p'' @ ''-target-'' @ Name example_request"
  have adm: "isAdmin ?v"
    by (simp add: isAdmin_def NewVaultProvider_def alice_def)
  have wr: "Write (vaultLogicalSvc ?v) ?path ?opts (backend (init_world []))
      = ((None, None), [(?path, ?opts)])"
    by (simp add: NewVaultProvider_def store_client_def init_world_def)
  have rd: "Read (vaultLogicalSvc ?v) ?path [(?path, ?opts)]
      = ((Some \<lparr>Data = listed_form ?opts, Auth = None\<rparr>, None), [(?path, ?opts)])"
    by (simp add: NewVaultProvider_def store_client_def)
  have d: "Data \<lparr>Data = listed_form ?opts, Auth = None\<rparr> = listed_form ?opts"
    by simp
  from target_roundtrip [OF adm wr rd d]
  show ?thesis by (simp add: example_request_def)
qed

text \<open>
  Against a store that returns exactly the data written, the read back panics:
  \<open>role_arns\<close> was written as a string and is asserted to be a list.
\<close>

theorem target_roundtrip_echo:
  "fst (GetTarget (NewVaultProvider (store_client (\<lambda>d. d)) alice) ''p'' ''t''
        (snd (CreateTarget (NewVaultProvider (store_client (\<lambda>d. d)) alice) ''p''
                example_request (init_world []))))
     = Panicked InterfaceConversion"
  by (simp add: GetTarget_def CreateTarget_def svc_Read_def svc_Write_def NewVaultProvider_def
      store_client_def init_world_def example_request_def isAdmin_def alice_def
      vaultProjectPrefix_def index_map_def Let_def)

end
